theory Spec2Isabelle
  imports Complex_Main "HOL-Library.Word" "HOL-Library.Multiset"
begin

unbundle bit_operations_syntax

section \<open>CodeSonify: a shallow embedding of the core pipeline\<close>

text \<open>
  Modelling conventions, used throughout.
  \<^item> A JavaScript string is a \<^typ>\<open>string\<close>: a list of code units, here restricted to
    the range 0..255 of \<^typ>\<open>char\<close>. \<open>charCodeAt\<close> is \<^const>\<open>of_char\<close>. A literal of
    the source with characters outside ASCII is kept as the bytes of the source file.
  \<^item> A JavaScript number that the code only ever uses as an integer (ticks, bytes,
    counts, line numbers) is an \<^typ>\<open>int\<close> or a \<^typ>\<open>nat\<close>; the 32-bit conversions of the
    bitwise operators are written out (\<open>toInt32\<close>).
  \<^item> A JavaScript number that carries a fraction (seconds, velocities, ratios) is a
    \<^typ>\<open>real\<close>: arithmetic is exact, the rounding of IEEE doubles, \<open>NaN\<close> and the
    infinities are not modelled. \<open>Math.round\<close> is \<^const>\<open>round\<close> (both round a half
    upwards).
  \<^item> Mutable objects (the track builder, the mapper's time cursor) are records passed
    through every call and returned updated; the clock that \<open>new Date()\<close> reads is an
    argument.
  \<^item> A lookup in a table keyed by a closed union type (\<open>DURATION_TICKS[note.duration]\<close>,
    \<open>channelMap[track.instrument]\<close>, ...) is a function on the datatype; the fallback
    that the source writes after it (\<open>|| TICKS_PER_BEAT\<close>, \<open>?? 0\<close>) cannot be reached.
  \<^item> No function of the source has a \<open>throw\<close> of its own, so each is a total function
    here, the value it returns. The limits of the engine (stack, memory, the number of
    arguments of one call) are not modelled, with one exception: the spread call of
    \<open>calculateMetrics\<close>, where the number of arguments grows with the text, has its
    error branch in \<open>analyze_call\<close>.
  \<^item> Where a field name of the source is a keyword here or is used by two interfaces,
    it is renamed: \<open>MusicNote.note\<close> is \<open>note_name\<close>, \<open>MusicTrack.instrument\<close> is
    \<open>track_instrument\<close>, \<open>MusicTrack.notes\<close> is \<open>track_notes\<close>, \<open>TrackEffect.type\<close> is
    \<open>etype\<close>, \<open>MusicComposition.duration\<close> is \<open>total_duration\<close>, \<open>CodeToken.type\<close> and
    \<open>CodeToken.value\<close> are \<open>tok_type\<close> and \<open>tok_value\<close>, \<open>CodeMetrics.complexity\<close> is
    \<open>metric_complexity\<close>.
\<close>

subsection \<open>Data model (types.ts)\<close>

datatype InstrumentType = melody | bass | harmony | percussion | ambient | dissonance

datatype Duration = D16n | D8n | D8n_dot | D4n | D4n_dot | D2n | D2n_dot | D1n

datatype Waveform = sine | square | sawtooth | triangle

datatype ScaleType =
  major | minor | pentatonic | blues | chromatic | dorian | mixolydian | lydian

datatype CodeLanguage =
  javascript | typescript | python | java | csharp | go | rust | unknown

datatype EffectType = reverb | delay | distortion | chorus | filter_effect

record TrackEffect =
  etype :: EffectType
  params :: "(string \<times> real) list"

record MusicNote =
  note_name :: string
  duration :: Duration
  velocity :: real
  time :: real
  instrument :: InstrumentType

record MusicTrack =
  name :: string
  track_instrument :: InstrumentType
  waveform :: Waveform
  volume :: real
  track_notes :: "MusicNote list"
  effects :: "TrackEffect list"

record CompositionMetadata =
  sourceLanguage :: CodeLanguage
  linesAnalyzed :: nat
  complexity :: int
  generatedAt :: string
  codeHash :: string
  musicalInterpretation :: string

record MusicComposition =
  title :: string
  tempo :: real
  timeSignature :: "nat \<times> nat"
  key :: string
  scale :: ScaleType
  total_duration :: real
  tracks :: "MusicTrack list"
  metadata :: CompositionMetadata

subsection \<open>Numbers and strings of the host language\<close>

text \<open>\<open>ToInt32\<close>: what every bitwise operator of JavaScript does to its operands.\<close>

definition toInt32 :: "int \<Rightarrow> int" where
  "toInt32 v = signed_take_bit 31 v"

text \<open>\<open>a & b\<close>, \<open>a | b\<close>, \<open>a >> k\<close> and \<open>a << k\<close> on numbers holding integers.\<close>

definition js_and :: "int \<Rightarrow> int \<Rightarrow> int" where
  "js_and a b = toInt32 a AND toInt32 b"

definition js_or :: "int \<Rightarrow> int \<Rightarrow> int" where
  "js_or a b = toInt32 a OR toInt32 b"

definition js_shr :: "int \<Rightarrow> nat \<Rightarrow> int" where
  "js_shr a k = drop_bit k (toInt32 a)"

definition js_shl :: "int \<Rightarrow> nat \<Rightarrow> int" where
  "js_shl a k = toInt32 (push_bit k (toInt32 a))"

text \<open>A character class \<open>[lo-hi]\<close> of a regular expression.\<close>

definition in_range :: "char \<Rightarrow> char \<Rightarrow> char \<Rightarrow> bool" where
  "in_range lo hi c = ((of_char lo :: nat) \<le> of_char c \<and> (of_char c :: nat) \<le> of_char hi)"

definition is_digit :: "char \<Rightarrow> bool" where
  "is_digit c = in_range CHR ''0'' CHR ''9'' c"

text \<open>\<open>parseInt\<close> on a string of decimal digits.\<close>

definition parseInt :: "string \<Rightarrow> int" where
  "parseInt ds = foldl (\<lambda>acc c. acc * 10 + (of_char c - 48)) 0 ds"

text \<open>
  Printing a non-negative integer in a base up to 16 (template literals, \<open>String(n)\<close>,
  \<open>toString(16)\<close>): the digits are produced from the least significant one.
\<close>

definition digit_char :: "int \<Rightarrow> char" where
  "digit_char d = (if d < 10 then char_of (48 + d) else char_of (87 + d))"

function digits_acc :: "int \<Rightarrow> int \<Rightarrow> string \<Rightarrow> string" where
  "digits_acc base n acc =
     (if n < base \<or> base < 2 then digit_char n # acc
      else digits_acc base (n div base) (digit_char (n mod base) # acc))"
  by pat_completeness auto
termination
proof (relation "measure (\<lambda>(base, n, acc). nat n)")
  show "wf (measure (\<lambda>(base, n, acc). nat n))"
    by simp
next
  fix base n :: int and acc :: string
  assume "\<not> (n < base \<or> base < 2)"
  then have b: "2 \<le> base" and n: "base \<le> n"
    by simp_all
  have "0 < n" using b n by simp
  moreover have "n div base < n"
    using b \<open>0 < n\<close> by (simp add: int_div_less_self)
  ultimately show "((base, n div base, digit_char (n mod base) # acc), (base, n, acc))
      \<in> measure (\<lambda>(base, n, acc). nat n)"
    by simp
qed

declare digits_acc.simps [simp del]

definition show_int :: "int \<Rightarrow> string" where
  "show_int i = (if i < 0 then CHR ''-'' # digits_acc 10 (- i) [] else digits_acc 10 i [])"

definition show_nat :: "nat \<Rightarrow> string" where
  "show_nat n = show_int (int n)"

subsection \<open>MIDI generator (midi.ts): constants and helpers\<close>

definition HEADER_CHUNK :: "int list" where
  "HEADER_CHUNK = [0x4D, 0x54, 0x68, 0x64]"

definition TRACK_CHUNK :: "int list" where
  "TRACK_CHUNK = [0x4D, 0x54, 0x72, 0x6B]"

definition TICKS_PER_BEAT :: int where
  "TICKS_PER_BEAT = 480"

definition NOTE_TO_MIDI :: "string \<rightharpoonup> int" where
  "NOTE_TO_MIDI = map_of
     [(''C'', 0), (''C#'', 1), (''D'', 2), (''D#'', 3), (''E'', 4), (''F'', 5),
      (''F#'', 6), (''G'', 7), (''G#'', 8), (''A'', 9), (''A#'', 10), (''B'', 11)]"

fun DURATION_TICKS :: "Duration \<Rightarrow> int" where
  "DURATION_TICKS D16n = 120"
| "DURATION_TICKS D8n = 240"
| "DURATION_TICKS D8n_dot = 360"
| "DURATION_TICKS D4n = 480"
| "DURATION_TICKS D4n_dot = 720"
| "DURATION_TICKS D2n = 960"
| "DURATION_TICKS D2n_dot = 1440"
| "DURATION_TICKS D1n = 1920"

fun INSTRUMENT_PROGRAMS :: "InstrumentType \<Rightarrow> int" where
  "INSTRUMENT_PROGRAMS melody = 0"
| "INSTRUMENT_PROGRAMS bass = 33"
| "INSTRUMENT_PROGRAMS harmony = 48"
| "INSTRUMENT_PROGRAMS percussion = 115"
| "INSTRUMENT_PROGRAMS ambient = 88"
| "INSTRUMENT_PROGRAMS dissonance = 30"

text \<open>
  \<open>noteStringToMidi\<close>: the pattern \<open>^([A-G]#?)(\d+)$\<close> read by hand: a letter A..G, an
  optional sharp, then digits up to the end; anything else is middle C (60), and so is a
  name the table does not hold (\<open>E#\<close>, \<open>B#\<close>).
\<close>

definition noteStringToMidi :: "string \<Rightarrow> int" where
  "noteStringToMidi noteStr =
     (case noteStr of
        [] \<Rightarrow> 60
      | c # rest \<Rightarrow>
          if \<not> in_range CHR ''A'' CHR ''G'' c then 60
          else
            let (noteName, ds) =
                  (case rest of
                     d # rest' \<Rightarrow> if d = CHR ''#'' then ([c, d], rest') else ([c], rest)
                   | [] \<Rightarrow> ([c], rest))
            in if ds = [] \<or> \<not> list_all is_digit ds then 60
               else (case NOTE_TO_MIDI noteName of
                       None \<Rightarrow> 60
                     | Some semitone \<Rightarrow> (parseInt ds + 1) * 12 + semitone))"

text \<open>
  \<open>encodeVLQ\<close>. The loop \<open>while (value > 0) { unshift; value >>= 7 }\<close> is a recursion on
  the value; every shift makes a positive value smaller, which is its termination.
\<close>

function vlq_loop :: "int \<Rightarrow> int list \<Rightarrow> int list" where
  "vlq_loop v bytes =
     (if v > 0 then vlq_loop (js_shr v 7) (js_or (js_and v 0x7F) 0x80 # bytes) else bytes)"
  by pat_completeness auto
termination
proof (relation "measure (\<lambda>(v, bytes). nat v)")
  show "wf (measure (\<lambda>(v, bytes). nat v))"
    by simp
next
  fix v :: int and bytes :: "int list"
  assume pos: "0 < v"
  have "signed_take_bit 31 v \<le> v"
    using pos by (simp add: signed_take_bit_int_less_eq_self_iff)
  moreover have "drop_bit 7 (signed_take_bit 31 v) < v"
  proof (cases "0 < signed_take_bit 31 v")
    case True
    then have "signed_take_bit 31 v div 128 < signed_take_bit 31 v"
      by simp
    then show ?thesis
      using \<open>signed_take_bit 31 v \<le> v\<close> by (simp add: drop_bit_eq_div)
  next
    case False
    then have "signed_take_bit 31 v div 128 \<le> 0"
      by (simp add: div_int_pos_iff not_less)
    then show ?thesis
      using pos by (simp add: drop_bit_eq_div)
  qed
  ultimately show "((js_shr v 7, js_or (js_and v 0x7F) 0x80 # bytes), (v, bytes))
      \<in> measure (\<lambda>(v, bytes). nat v)"
    using pos by (simp add: js_shr_def toInt32_def)
qed

declare vlq_loop.simps [simp del]

definition encodeVLQ :: "int \<Rightarrow> int list" where
  "encodeVLQ value0 =
     (let v = (if value0 < 0 then 0 else value0)
      in vlq_loop (js_shr v 7) [js_and v 0x7F])"

definition int32ToBytes :: "int \<Rightarrow> int list" where
  "int32ToBytes v =
     [js_and (js_shr v 24) 0xFF, js_and (js_shr v 16) 0xFF, js_and (js_shr v 8) 0xFF,
      js_and v 0xFF]"

definition int16ToBytes :: "int \<Rightarrow> int list" where
  "int16ToBytes v = [js_and (js_shr v 8) 0xFF, js_and v 0xFF]"

definition stringToBytes :: "string \<Rightarrow> int list" where
  "stringToBytes str = map of_char str"

subsection \<open>MIDI generator: the track builder\<close>

text \<open>
  The class \<open>MidiTrackBuilder\<close> is its two fields; every method takes the builder and
  returns it updated. Ticks are integers at every call site (\<open>0\<close>, a \<open>Math.round\<close>, or a
  sum of such), so the \<open>Math.round\<close> of \<open>addEvent\<close> and \<open>addMeta\<close> is the identity.
\<close>

record MidiTrackBuilder =
  events :: "int list"
  lastTick :: int

definition newBuilder :: MidiTrackBuilder where
  "newBuilder = \<lparr>events = [], lastTick = 0\<rparr>"

definition addEvent :: "int \<Rightarrow> int list \<Rightarrow> MidiTrackBuilder \<Rightarrow> MidiTrackBuilder" where
  "addEvent absoluteTick eventBytes b =
     (let delta = max 0 (absoluteTick - lastTick b)
      in b\<lparr>events := events b @ encodeVLQ delta @ eventBytes, lastTick := absoluteTick\<rparr>)"

definition addMeta :: "int \<Rightarrow> int \<Rightarrow> int list \<Rightarrow> MidiTrackBuilder \<Rightarrow> MidiTrackBuilder" where
  "addMeta absoluteTick metaType data b =
     (let delta = max 0 (absoluteTick - lastTick b)
      in b\<lparr>events := events b @ encodeVLQ delta @ [0xFF, metaType]
                          @ encodeVLQ (int (length data)) @ data,
            lastTick := absoluteTick\<rparr>)"

definition addTrackName :: "string \<Rightarrow> MidiTrackBuilder \<Rightarrow> MidiTrackBuilder" where
  "addTrackName nm b = addMeta 0 0x03 (stringToBytes nm) b"

definition addTempo :: "real \<Rightarrow> MidiTrackBuilder \<Rightarrow> MidiTrackBuilder" where
  "addTempo bpm b =
     (let microsecondsPerBeat = round (60000000 / bpm)
      in addMeta 0 0x51
           [js_and (js_shr microsecondsPerBeat 16) 0xFF,
            js_and (js_shr microsecondsPerBeat 8) 0xFF,
            js_and microsecondsPerBeat 0xFF] b)"

text \<open>
  \<open>Math.log2(denominator)\<close> goes into the byte array as it is and \<open>Buffer.from\<close> keeps its
  integer part; the model takes the integer part at once. Both pipelines pass 4.
\<close>

fun log2_byte :: "nat \<Rightarrow> nat" where
  "log2_byte n = (if n < 2 then 0 else Suc (log2_byte (n div 2)))"

definition addTimeSignature :: "nat \<Rightarrow> nat \<Rightarrow> MidiTrackBuilder \<Rightarrow> MidiTrackBuilder" where
  "addTimeSignature numerator denominator b =
     (let denomPow = int (log2_byte denominator)
      in addMeta 0 0x58 [int numerator, denomPow, 24, 8] b)"

definition addProgramChange :: "int \<Rightarrow> int \<Rightarrow> MidiTrackBuilder \<Rightarrow> MidiTrackBuilder" where
  "addProgramChange channel program b =
     addEvent 0 [js_or 0xC0 (js_and channel 0x0F), js_and program 0x7F] b"

definition addNoteOn :: "int \<Rightarrow> int \<Rightarrow> int \<Rightarrow> real \<Rightarrow> MidiTrackBuilder \<Rightarrow> MidiTrackBuilder" where
  "addNoteOn tick channel midiNote vel0 b =
     (let vel = min 127 (max 1 (round (vel0 * 127)))
      in addEvent tick [js_or 0x90 (js_and channel 0x0F), js_and midiNote 0x7F, vel] b)"

definition addNoteOff :: "int \<Rightarrow> int \<Rightarrow> int \<Rightarrow> MidiTrackBuilder \<Rightarrow> MidiTrackBuilder" where
  "addNoteOff tick channel midiNote b =
     addEvent tick [js_or 0x80 (js_and channel 0x0F), js_and midiNote 0x7F, 0] b"

definition addEndOfTrack :: "MidiTrackBuilder \<Rightarrow> MidiTrackBuilder" where
  "addEndOfTrack b = addMeta (lastTick b) 0x2F [] b"

definition build :: "MidiTrackBuilder \<Rightarrow> int list" where
  "build b =
     (let b' = addEndOfTrack b
      in TRACK_CHUNK @ int32ToBytes (int (length (events b'))) @ events b')"

subsection \<open>MIDI generator: \<open>generate\<close>\<close>

fun channelMap :: "InstrumentType \<Rightarrow> int" where
  "channelMap melody = 0"
| "channelMap bass = 1"
| "channelMap harmony = 2"
| "channelMap percussion = 9"
| "channelMap ambient = 3"
| "channelMap dissonance = 4"

fun language_name :: "CodeLanguage \<Rightarrow> string" where
  "language_name javascript = ''javascript''"
| "language_name typescript = ''typescript''"
| "language_name python = ''python''"
| "language_name java = ''java''"
| "language_name csharp = ''csharp''"
| "language_name go = ''go''"
| "language_name rust = ''rust''"
| "language_name unknown = ''unknown''"

definition secondsToTicks :: "real \<Rightarrow> real \<Rightarrow> int" where
  "secondsToTicks bpm seconds = round (seconds * (bpm / 60) * real_of_int TICKS_PER_BEAT)"

text \<open>
  \<open>[...track.notes].sort((a, b) => a.time - b.time)\<close>: the sort of the language is stable,
  so it is the stable insertion sort on the start time.
\<close>

definition sortedNotes :: "MusicNote list \<Rightarrow> MusicNote list" where
  "sortedNotes ns = sort_key time ns"

text \<open>The body of the loop over the sorted notes; \<open>continue\<close> leaves the builder as it is.\<close>

definition addNote :: "real \<Rightarrow> int \<Rightarrow> MusicNote \<Rightarrow> MidiTrackBuilder \<Rightarrow> MidiTrackBuilder" where
  "addNote bpm channel n b =
     (let midiNote = noteStringToMidi (note_name n)
      in if midiNote < 0 \<or> midiNote > 127 then b
         else
           let startTick = secondsToTicks bpm (time n);
               durationTicks = DURATION_TICKS (duration n)
           in addNoteOff (startTick + durationTicks) channel midiNote
                (addNoteOn startTick channel midiNote (velocity n) b))"

text \<open>\<open>name.replace(/[^\x20-\x7E]/g, '')\<close>\<close>

definition ascii_only :: "string \<Rightarrow> string" where
  "ascii_only s = filter (\<lambda>c. (0x20::nat) \<le> of_char c \<and> (of_char c :: nat) \<le> 0x7E) s"

definition tempoTrack :: "MusicComposition \<Rightarrow> int list" where
  "tempoTrack composition =
     build
       (addMeta 0 0x01
          (stringToBytes
             (''Generated by CodeSonify | '' @ language_name (sourceLanguage (metadata composition))
              @ '' | Complexity: '' @ show_int (complexity (metadata composition)) @ ''/100''))
          (addTimeSignature (fst (timeSignature composition)) (snd (timeSignature composition))
             (addTempo (tempo composition)
                (addTrackName (title composition) newBuilder))))"

definition midiTrack :: "real \<Rightarrow> MusicTrack \<Rightarrow> int list" where
  "midiTrack bpm track =
     (let channel = channelMap (track_instrument track);
          b1 = addTrackName (ascii_only (name track)) newBuilder;
          b2 = (if channel \<noteq> 9
                then addProgramChange channel (INSTRUMENT_PROGRAMS (track_instrument track)) b1
                else b1)
      in build (fold (addNote bpm channel) (sortedNotes (track_notes track)) b2))"

definition midiTracks :: "MusicComposition \<Rightarrow> int list list" where
  "midiTracks composition =
     tempoTrack composition # map (midiTrack (tempo composition)) (tracks composition)"

definition headerBytes :: "int list list \<Rightarrow> int list" where
  "headerBytes trks =
     HEADER_CHUNK @ int32ToBytes 6 @ int16ToBytes 1 @ int16ToBytes (int (length trks))
       @ int16ToBytes TICKS_PER_BEAT"

text \<open>\<open>Buffer.from\<close> keeps the low eight bits of every number.\<close>

definition Buffer_from :: "int list \<Rightarrow> 8 word list" where
  "Buffer_from bytes = map word_of_int bytes"

definition generate :: "MusicComposition \<Rightarrow> 8 word list" where
  "generate composition =
     (let trks = midiTracks composition
      in Buffer_from (headerBytes trks @ concat trks))"

subsection \<open>Strings: the methods the parser and the diff reader use\<close>

text \<open>White space as \<open>trim\<close> and \<open>\s\<close> see it, among the code units below 256.\<close>

definition is_space :: "char \<Rightarrow> bool" where
  "is_space c = ((of_char c :: nat) \<in> {9, 10, 11, 12, 13, 32, 160})"

text \<open>\<open>\w\<close>\<close>

definition is_word_char :: "char \<Rightarrow> bool" where
  "is_word_char c =
     (in_range CHR ''a'' CHR ''z'' c \<or> in_range CHR ''A'' CHR ''Z'' c \<or> is_digit c
      \<or> c = CHR ''_'')"

definition trimStart :: "string \<Rightarrow> string" where
  "trimStart s = dropWhile is_space s"

definition trim :: "string \<Rightarrow> string" where
  "trim s = rev (dropWhile is_space (rev (dropWhile is_space s)))"

definition startsWith :: "string \<Rightarrow> string \<Rightarrow> bool" where
  "startsWith s p = (take (length p) s = p)"

fun str_includes :: "string \<Rightarrow> string \<Rightarrow> bool" where
  "str_includes [] sub = (sub = [])"
| "str_includes (c # cs) sub = (startsWith (c # cs) sub \<or> str_includes cs sub)"

text \<open>\<open>s.indexOf(c)\<close> for a single character; \<open>-1\<close> when it does not occur.\<close>

definition indexOf :: "string \<Rightarrow> char \<Rightarrow> int" where
  "indexOf s c = (if c \<in> set s then int (length (takeWhile (\<lambda>x. x \<noteq> c) s)) else - 1)"

text \<open>\<open>s.split(d)\<close> for a single character: never empty, \<open>''.split(d)\<close> is \<open>['']\<close>.\<close>

fun split_on :: "char \<Rightarrow> string \<Rightarrow> string list" where
  "split_on d [] = [[]]"
| "split_on d (c # cs) =
     (if c = d then [] # split_on d cs
      else (case split_on d cs of
              l # ls \<Rightarrow> (c # l) # ls
            | [] \<Rightarrow> [[c]]))"

text \<open>A string literal of the source that holds bytes outside ASCII, byte by byte.\<close>

definition raw_bytes :: "nat list \<Rightarrow> string" where
  "raw_bytes ns = map char_of ns"

subsection \<open>Regular expressions of the language signatures\<close>

text \<open>
  The signatures use literals, character classes, \<open>*\<close>, \<open>+\<close> on a class, \<open>?\<close>,
  alternation, sequence and \<open>$\<close> (end of input: no flag is set). \<open>rx_match r s\<close> lists
  what is left of \<open>s\<close> after each way of matching \<open>r\<close> at its start; \<open>rx_test\<close> is
  \<open>RegExp.prototype.test\<close>: a match starting anywhere.
\<close>

datatype rx =
    Lit string
  | Cls "char \<Rightarrow> bool"
  | Many "char \<Rightarrow> bool"
  | Many1 "char \<Rightarrow> bool"
  | Opt rx
  | Alt rx rx
  | Seq rx rx
  | Eol

fun many_rests :: "(char \<Rightarrow> bool) \<Rightarrow> string \<Rightarrow> string list" where
  "many_rests P [] = [[]]"
| "many_rests P (c # cs) = (c # cs) # (if P c then many_rests P cs else [])"

fun rx_match :: "rx \<Rightarrow> string \<Rightarrow> string list" where
  "rx_match (Lit p) s = (if startsWith s p then [drop (length p) s] else [])"
| "rx_match (Cls P) s = (case s of [] \<Rightarrow> [] | c # cs \<Rightarrow> if P c then [cs] else [])"
| "rx_match (Many P) s = many_rests P s"
| "rx_match (Many1 P) s = (case s of [] \<Rightarrow> [] | c # cs \<Rightarrow> if P c then many_rests P cs else [])"
| "rx_match (Opt r) s = s # rx_match r s"
| "rx_match (Alt a b) s = rx_match a s @ rx_match b s"
| "rx_match (Seq a b) s = concat (map (rx_match b) (rx_match a s))"
| "rx_match Eol s = (if s = [] then [[]] else [])"

fun rx_test :: "rx \<Rightarrow> string \<Rightarrow> bool" where
  "rx_test r [] = (rx_match r [] \<noteq> [])"
| "rx_test r (c # cs) = (rx_match r (c # cs) \<noteq> [] \<or> rx_test r cs)"

definition seq :: "rx list \<Rightarrow> rx" where
  "seq rs = foldr Seq (butlast rs) (last rs)"

text \<open>\<open>.\<close> matches everything but a line terminator.\<close>

definition dot :: "char \<Rightarrow> bool" where
  "dot c = ((of_char c :: nat) \<notin> {10, 13})"

text \<open>\<open>['"]\<close>\<close>

definition quote :: "char \<Rightarrow> bool" where
  "quote c = ((of_char c :: nat) \<in> {39, 34})"

subsection \<open>Code parser (parser.ts)\<close>

datatype TokenType =
    T_function | T_loop | T_conditional | T_variable | T_operator | T_string | T_number
  | T_comment | T_class | T_import | T_return | T_error | T_bracket_open | T_bracket_close
  | T_whitespace | T_keyword | T_unknown
  | T_inherited

text \<open>
  \<open>T_inherited\<close> is not a member of the source's \<open>TokenType\<close>: it stands for the value
  that a lookup in the keyword table gives for a name the table object inherits
  (\<open>constructor\<close>, \<open>toString\<close>, ...): a function or object, which is truthy, equals none
  of the type names and takes the \<open>default\<close> branch of every \<open>switch\<close>.
\<close>

record CodeToken =
  tok_type :: TokenType
  tok_value :: string
  line :: nat
  column :: int
  depth :: int

record CodeMetrics =
  totalLines :: nat
  codeLines :: int
  commentLines :: nat
  emptyLines :: nat
  functionCount :: nat
  loopCount :: nat
  conditionalCount :: nat
  variableCount :: nat
  maxNestingDepth :: int
  metric_complexity :: int
  classCount :: nat
  importCount :: nat
  errorCount :: nat

datatype CodeStructure =
  CodeStructure (s_type: TokenType) (s_name: string) (startLine: nat) (endLine: nat)
    (s_depth: int) (children: "CodeStructure list")

record CodeAnalysis =
  language :: CodeLanguage
  tokens :: "CodeToken list"
  metrics :: CodeMetrics
  structures :: "CodeStructure list"

definition sp :: "char \<Rightarrow> bool" where
  "sp = is_space"

definition LANGUAGE_SIGNATURES :: "(CodeLanguage \<times> rx list) list" where
  "LANGUAGE_SIGNATURES =
     [(typescript,
        [seq [Lit '':'', Many sp,
              Alt (Lit ''string'') (Alt (Lit ''number'') (Alt (Lit ''boolean'')
                (Alt (Lit ''any'') (Alt (Lit ''void'') (Lit ''never'')))))],
         seq [Lit ''interface'', Many1 sp, Many1 is_word_char],
         seq [Lit ''import'', Many1 sp, Many dot, Lit ''from'', Many1 sp, Cls quote],
         seq [Lit ''?.'', Many1 is_word_char],
         seq [Lit ''<'', Many1 is_word_char, Lit ''>'']]),
      (javascript,
        [seq [Lit ''const'', Many1 sp, Many1 is_word_char, Many sp, Lit ''=''],
         seq [Lit ''let'', Many1 sp, Many1 is_word_char],
         seq [Lit ''=>'', Many sp, Opt (Lit ''{'')],
         Lit ''require('',
         Lit ''module.exports'']),
      (python,
        [seq [Lit ''def'', Many1 sp, Many1 is_word_char, Lit ''(''],
         seq [Lit ''import'', Many1 sp, Many1 is_word_char],
         seq [Lit ''class'', Many1 sp, Many1 is_word_char, Lit '':''],
         seq [Lit ''if'', Many1 sp, Many dot, Lit '':'', Eol],
         Lit ''print('']),
      (java,
        [seq [Lit ''public'', Many1 sp, Opt (seq [Lit ''static'', Many1 sp]), Lit ''class''],
         Lit ''System.out'',
         seq [Lit ''void'', Many1 sp, Lit ''main''],
         seq [Lit ''private'', Many1 sp, Many1 is_word_char],
         seq [Lit ''import'', Many1 sp, Lit ''java.'']]),
      (csharp,
        [seq [Lit ''using'', Many1 sp, Lit ''System''],
         seq [Lit ''namespace'', Many1 sp, Many1 is_word_char],
         seq [Lit ''public'', Many1 sp, Lit ''class''],
         Lit ''Console.Write'',
         seq [Lit ''['', Many dot, Lit '']'', Many sp, Eol]]),
      (go,
        [seq [Lit ''func'', Many1 sp, Many1 is_word_char, Lit ''(''],
         seq [Lit ''package'', Many1 sp, Many1 is_word_char],
         seq [Lit ''import'', Many1 sp, Lit ''(''],
         Lit ''fmt.Print'',
         seq [Lit '':='', Many sp]]),
      (rust,
        [seq [Lit ''fn'', Many1 sp, Many1 is_word_char, Lit ''(''],
         seq [Lit ''let'', Many1 sp, Lit ''mut'', Many1 sp],
         seq [Lit ''impl'', Many1 sp, Many1 is_word_char],
         seq [Lit ''pub'', Many1 sp, Lit ''fn''],
         seq [Lit ''use'', Many1 sp, Many1 is_word_char, Lit ''::'']]),
      (unknown, [])]"

definition keyword_entries :: "(string \<times> TokenType) list" where
  "keyword_entries =
     [(''function'', T_function), (''def'', T_function), (''fn'', T_function),
      (''func'', T_function), (''async'', T_function), (''await'', T_function),
      (''lambda'', T_function),
      (''for'', T_loop), (''while'', T_loop), (''do'', T_loop), (''foreach'', T_loop),
      (''loop'', T_loop), (''each'', T_loop), (''map'', T_loop), (''filter'', T_loop),
      (''reduce'', T_loop), (''forEach'', T_loop),
      (''if'', T_conditional), (''else'', T_conditional), (''elif'', T_conditional),
      (''switch'', T_conditional), (''case'', T_conditional), (''match'', T_conditional),
      (''when'', T_conditional), (''unless'', T_conditional), (''ternary'', T_conditional),
      (''var'', T_variable), (''let'', T_variable), (''const'', T_variable),
      (''val'', T_variable), (''mut'', T_variable), (''static'', T_variable),
      (''class'', T_class), (''struct'', T_class), (''interface'', T_class),
      (''enum'', T_class), (''trait'', T_class), (''type'', T_class),
      (''import'', T_import), (''require'', T_import), (''use'', T_import),
      (''using'', T_import), (''include'', T_import), (''from'', T_import),
      (''return'', T_return), (''yield'', T_return), (''throw'', T_return),
      (''new'', T_keyword), (''this'', T_keyword), (''self'', T_keyword),
      (''super'', T_keyword), (''null'', T_keyword), (''nil'', T_keyword),
      (''true'', T_keyword), (''false'', T_keyword), (''undefined'', T_keyword),
      (''try'', T_keyword), (''catch'', T_keyword), (''finally'', T_keyword),
      (''public'', T_keyword), (''private'', T_keyword), (''protected'', T_keyword),
      (''export'', T_keyword), (''default'', T_keyword), (''extends'', T_keyword),
      (''implements'', T_keyword), (''abstract'', T_keyword), (''override'', T_keyword)]"

definition LANGUAGE_KEYWORDS :: "string \<rightharpoonup> TokenType" where
  "LANGUAGE_KEYWORDS = map_of keyword_entries"

text \<open>The names every object literal inherits from \<open>Object.prototype\<close>.\<close>

definition inherited_names :: "string list" where
  "inherited_names =
     [''constructor'', ''toString'', ''toLocaleString'', ''valueOf'', ''hasOwnProperty'',
      ''isPrototypeOf'', ''propertyIsEnumerable'', ''__proto__'', ''__defineGetter__'',
      ''__defineSetter__'', ''__lookupGetter__'', ''__lookupSetter__'']"

text \<open>\<open>LANGUAGE_KEYWORDS[cleanWord]\<close>: own entries first, then the inherited names.\<close>

definition keyword_lookup :: "string \<Rightarrow> TokenType option" where
  "keyword_lookup w =
     (case LANGUAGE_KEYWORDS w of
        Some ty \<Rightarrow> Some ty
      | None \<Rightarrow> if w \<in> set inherited_names then Some T_inherited else None)"

text \<open>\<open>detectLanguage\<close>: one point per signature found; the first language with the
  strictly highest score wins, none with a positive score gives \<open>unknown\<close>.\<close>

definition language_score :: "string \<Rightarrow> rx list \<Rightarrow> nat" where
  "language_score code patterns = length (filter (\<lambda>pattern. rx_test pattern code) patterns)"

fun best_language ::
  "(CodeLanguage \<times> nat) list \<Rightarrow> CodeLanguage \<Rightarrow> nat \<Rightarrow> CodeLanguage \<times> nat" where
  "best_language [] bestLang bestScore = (bestLang, bestScore)"
| "best_language ((lang, score) # rest) bestLang bestScore =
     (if score > bestScore then best_language rest lang score
      else best_language rest bestLang bestScore)"

definition detectLanguage :: "string \<Rightarrow> CodeLanguage" where
  "detectLanguage code =
     (let scores = map (\<lambda>(lang, patterns). (lang, language_score code patterns))
                     (filter (\<lambda>(lang, patterns). lang \<noteq> unknown) LANGUAGE_SIGNATURES);
          (bestLang, bestScore) = best_language scores unknown 0
      in if bestScore > 0 then bestLang else unknown)"

text \<open>The separators of the word split: \<open>\s+\<close> or one of these characters.\<close>

definition is_punct :: "char \<Rightarrow> bool" where
  "is_punct c = (c \<in> set ''{}()[];,.:=<>+-*/!&|^~?@#$%'')"

text \<open>
  \<open>trimmed.split(/(\s+|[...])/g).filter(w => w.trim().length > 0)\<close>: the split keeps the
  separators it captures; the filter drops the empty pieces and the white space. What is
  left are the maximal runs of other characters and every punctuation character on its
  own, in order. \<open>cur\<close> is the run read so far.
\<close>

definition flush_word :: "string \<Rightarrow> string list" where
  "flush_word cur = (if cur = [] then [] else [cur])"

fun split_words :: "string \<Rightarrow> string \<Rightarrow> string list" where
  "split_words cur [] = flush_word cur"
| "split_words cur (c # cs) =
     (if is_space c then flush_word cur @ split_words [] cs
      else if is_punct c then flush_word cur @ [c] # split_words [] cs
      else split_words (cur @ [c]) cs)"

text \<open>\<open>/^['"`]/\<close>\<close>

definition looks_string :: "string \<Rightarrow> bool" where
  "looks_string w = (case w of [] \<Rightarrow> False | c # _ \<Rightarrow> (of_char c :: nat) \<in> {39, 34, 96})"

text \<open>\<open>/^\d+(\.\d+)?$/\<close>\<close>

definition looks_number :: "string \<Rightarrow> bool" where
  "looks_number w =
     (let whole = takeWhile is_digit w; rest = dropWhile is_digit w
      in whole \<noteq> [] \<and>
         (case rest of
            [] \<Rightarrow> True
          | c # fraction \<Rightarrow> c = CHR ''.'' \<and> fraction \<noteq> [] \<and> list_all is_digit fraction))"

text \<open>\<open>/^[=+\-*\/%<>!&|^~?]+$/\<close>\<close>

definition looks_operator :: "string \<Rightarrow> bool" where
  "looks_operator w = (w \<noteq> [] \<and> list_all (\<lambda>c. c \<in> set ''=+-*/%<>!&|^~?'') w)"

text \<open>\<open>/\w+\s*$/\<close>: a word character, then at most white space, at the end.\<close>

definition ends_with_word :: "string \<Rightarrow> bool" where
  "ends_with_word w =
     (case dropWhile is_space (rev w) of [] \<Rightarrow> False | c # _ \<Rightarrow> is_word_char c)"

text \<open>The chain of tests on one word of a line (\<open>lineIdx < lines.length\<close> always holds).\<close>

definition classify_word :: "string \<Rightarrow> string \<Rightarrow> TokenType" where
  "classify_word lineText cleanWord =
     (if looks_string cleanWord then T_string
      else if looks_number cleanWord then T_number
      else if looks_operator cleanWord then T_operator
      else if cleanWord \<in> {''{'', ''('', ''[''} then T_bracket_open
      else if cleanWord \<in> {''}'', '')'', '']''} then T_bracket_close
      else (case keyword_lookup cleanWord of
              Some ty \<Rightarrow> ty
            | None \<Rightarrow>
                if ends_with_word cleanWord \<and> str_includes lineText (cleanWord @ ''('')
                then T_function
                else T_unknown))"

fun word_tokens :: "string \<Rightarrow> nat \<Rightarrow> int \<Rightarrow> int \<Rightarrow> string list \<Rightarrow> CodeToken list" where
  "word_tokens lineText lineNo currentDepth columnOffset [] = []"
| "word_tokens lineText lineNo currentDepth columnOffset (cleanWord # ws) =
     \<lparr>tok_type = classify_word lineText cleanWord, tok_value = cleanWord, line = lineNo,
      column = columnOffset, depth = currentDepth\<rparr>
     # word_tokens lineText lineNo currentDepth (columnOffset + int (length cleanWord) + 1) ws"

definition is_comment_line :: "string \<Rightarrow> bool" where
  "is_comment_line trimmed =
     (startsWith trimmed ''//'' \<or> startsWith trimmed ''#'' \<or> startsWith trimmed ''--''
      \<or> startsWith trimmed ''/*'' \<or> startsWith trimmed ''*'')"

definition count_chars :: "string \<Rightarrow> string \<Rightarrow> int" where
  "count_chars cs s = int (length (filter (\<lambda>c. c \<in> set cs) s))"

text \<open>The loop of \<open>tokenize\<close> over the lines, with the running depth.\<close>

fun tokenize_lines :: "nat \<Rightarrow> int \<Rightarrow> string list \<Rightarrow> CodeToken list" where
  "tokenize_lines lineIdx currentDepth [] = []"
| "tokenize_lines lineIdx currentDepth (lineText # rest) =
     (let trimmed = trim lineText
      in if length trimmed = 0
         then \<lparr>tok_type = T_whitespace, tok_value = [], line = lineIdx + 1, column = 0,
               depth = currentDepth\<rparr>
              # tokenize_lines (lineIdx + 1) currentDepth rest
         else if is_comment_line trimmed
         then \<lparr>tok_type = T_comment, tok_value = trimmed, line = lineIdx + 1,
               column = indexOf lineText (hd trimmed), depth = currentDepth\<rparr>
              # tokenize_lines (lineIdx + 1) currentDepth rest
         else
           let openBrackets = count_chars ''{(['' trimmed;
               closeBrackets = count_chars ''})]'' trimmed;
               wds = split_words [] trimmed;
               columnOffset = int (length lineText) - int (length (trimStart lineText));
               d = currentDepth + (openBrackets - closeBrackets)
           in word_tokens lineText (lineIdx + 1) currentDepth columnOffset wds
              @ tokenize_lines (lineIdx + 1) (if d < 0 then 0 else d) rest)"

definition tokenize :: "string \<Rightarrow> string list \<Rightarrow> CodeToken list" where
  "tokenize code lns = tokenize_lines 0 0 lns"

text \<open>\<open>extractStructures\<close>: the inner loop that looks for the end line, then the scan.\<close>

fun find_endLine :: "CodeToken \<Rightarrow> nat \<Rightarrow> CodeToken list \<Rightarrow> nat" where
  "find_endLine token endLn [] = endLn"
| "find_endLine token endLn (tj # rest) =
     (if depth tj < depth token \<and> line tj > line token then line tj - 1
      else find_endLine token (line tj) rest)"

fun flat_structures :: "CodeToken list \<Rightarrow> (TokenType \<times> string \<times> nat \<times> nat \<times> int) list" where
  "flat_structures [] = []"
| "flat_structures (token # rest) =
     (if tok_type token \<in> {T_function, T_class, T_loop, T_conditional}
      then (tok_type token,
            (case rest of
               nxt # _ \<Rightarrow> if tok_type nxt = T_unknown then tok_value nxt else tok_value token
             | [] \<Rightarrow> tok_value token),
            line token,
            find_endLine token (line token) rest,
            depth token) # flat_structures rest
      else flat_structures rest)"

definition isInsideStructure :: "CodeStructure \<Rightarrow> CodeStructure \<Rightarrow> bool" where
  "isInsideStructure child parent =
     (startLine child > startLine parent \<and> endLine child \<le> endLine parent)"

definition push_child :: "CodeStructure \<Rightarrow> CodeStructure \<Rightarrow> CodeStructure" where
  "push_child parent child =
     CodeStructure (s_type parent) (s_name parent) (startLine parent) (endLine parent)
       (s_depth parent) (children parent @ [child])"

text \<open>
  \<open>nestStructures\<close>: the roots are searched from the last one backwards (here: the
  reversed list from its head); the first root that contains the structure takes it as
  a child, otherwise it becomes a new root.
\<close>

fun place_in :: "CodeStructure \<Rightarrow> CodeStructure list \<Rightarrow> CodeStructure list option" where
  "place_in struct [] = None"
| "place_in struct (r # rs) =
     (if isInsideStructure struct r then Some (push_child r struct # rs)
      else map_option (\<lambda>rs'. r # rs') (place_in struct rs))"

definition nest_one :: "CodeStructure list \<Rightarrow> CodeStructure \<Rightarrow> CodeStructure list" where
  "nest_one roots struct =
     (case place_in struct (rev roots) of
        Some placed \<Rightarrow> rev placed
      | None \<Rightarrow> roots @ [struct])"

definition nestStructures :: "CodeStructure list \<Rightarrow> CodeStructure list" where
  "nestStructures structs = foldl nest_one [] structs"

definition extractStructures :: "CodeToken list \<Rightarrow> string list \<Rightarrow> CodeStructure list" where
  "extractStructures tks lns =
     nestStructures
       (map (\<lambda>(ty, nm, start, end_line, d). CodeStructure ty nm start end_line d [])
          (flat_structures tks))"

definition count_type :: "TokenType \<Rightarrow> CodeToken list \<Rightarrow> nat" where
  "count_type ty tks = length (filter (\<lambda>t. tok_type t = ty) tks)"

text \<open>
  \<open>calculateMetrics\<close>. \<open>codeLines\<close> is a difference of counts and is kept an integer;
  \<open>Math.max(0, ...depths)\<close> is a fold of \<open>max\<close> from 0; the size score is half the code
  lines, so the sum of the scores is a real number and is rounded at the end.
\<close>

definition calculateMetrics ::
  "CodeToken list \<Rightarrow> string list \<Rightarrow> CodeStructure list \<Rightarrow> CodeMetrics" where
  "calculateMetrics tks lns structs =
     (let total = length lns;
          empty = length (filter (\<lambda>l. length (trim l) = 0) lns);
          comments = count_type T_comment tks;
          code_lines = int total - int empty - int comments;
          functions = count_type T_function tks;
          loops = count_type T_loop tks;
          conditionals = count_type T_conditional tks;
          variables = count_type T_variable tks;
          classes = count_type T_class tks;
          imports = count_type T_import tks;
          errors = count_type T_error tks;
          maxDepth = fold max (map depth tks) 0;
          nestingScore = min (maxDepth * 10) 30;
          branchScore = min ((int conditionals + int loops) * 5) 30;
          sizeScore = min (real_of_int code_lines * 0.5) 20;
          functionScore = min (int functions * 3) 20;
          cplx = min 100 (real_of_int nestingScore + real_of_int branchScore + sizeScore
                           + real_of_int functionScore)
      in \<lparr>totalLines = total, codeLines = code_lines, commentLines = comments,
          emptyLines = empty, functionCount = functions, loopCount = loops,
          conditionalCount = conditionals, variableCount = variables,
          maxNestingDepth = maxDepth, metric_complexity = round cplx,
          classCount = classes, importCount = imports, errorCount = errors\<rparr>)"

text \<open>\<open>analyze\<close>; the optional language hint is an option.\<close>

definition newline :: char where
  "newline = CHR 0x0A"

definition analyze :: "string \<Rightarrow> CodeLanguage option \<Rightarrow> CodeAnalysis" where
  "analyze code lang =
     (let detectedLanguage = (case lang of Some l \<Rightarrow> l | None \<Rightarrow> detectLanguage code);
          lns = split_on newline code;
          tks = tokenize code lns;
          structs = extractStructures tks lns;
          m = calculateMetrics tks lns structs
      in \<lparr>language = detectedLanguage, tokens = tks, metrics = m, structures = structs\<rparr>)"

text \<open>
  The one call of the parser that can raise. \<open>Math.max(0, ...tokens.map(t => t.depth))\<close>
  is a call with one argument for the 0 and one for every token, and the engine raises a
  \<open>RangeError\<close> when a call has more arguments than it accepts. The language fixes no
  such number, so it is the parameter \<open>argLimit\<close>. Nothing before that call in
  \<open>calculateMetrics\<close> or in \<open>analyze\<close> has an effect, so \<open>calculateMetrics\<close> and
  \<open>analyze\<close> above are the values returned when nothing is raised, and the functions
  below are the calls with their error branch.
\<close>

datatype error = RangeError

definition Math_max_spread :: "nat \<Rightarrow> int \<Rightarrow> int list \<Rightarrow> error + int" where
  "Math_max_spread argLimit x xs =
     (if argLimit < 1 + length xs then Inl RangeError else Inr (fold max xs x))"



subsection \<open>Music mapper (mapper.ts): tables\<close>

fun SCALES :: "ScaleType \<Rightarrow> nat list" where
  "SCALES major = [0, 2, 4, 5, 7, 9, 11]"
| "SCALES minor = [0, 2, 3, 5, 7, 8, 10]"
| "SCALES pentatonic = [0, 2, 4, 7, 9]"
| "SCALES blues = [0, 3, 5, 6, 7, 10]"
| "SCALES chromatic = [0, 1, 2, 3, 4, 5, 6, 7, 8, 9, 10, 11]"
| "SCALES dorian = [0, 2, 3, 5, 7, 9, 10]"
| "SCALES mixolydian = [0, 2, 4, 5, 7, 9, 10]"
| "SCALES lydian = [0, 2, 4, 6, 7, 9, 11]"

definition NOTE_NAMES :: "string list" where
  "NOTE_NAMES =
     [''C'', ''C#'', ''D'', ''D#'', ''E'', ''F'', ''F#'', ''G'', ''G#'', ''A'', ''A#'', ''B'']"

text \<open>
  \<open>NOTE_NAMES.indexOf(key)\<close>. Every key that reaches it (the base key of a preset, the
  key of a diff) is one of the twelve names, so the \<open>-1\<close> of \<open>indexOf\<close> does not arise.
\<close>

definition note_index :: "string \<Rightarrow> nat" where
  "note_index k = length (takeWhile (\<lambda>n. n \<noteq> k) NOTE_NAMES)"

fun DURATION_VALUES :: "Duration \<Rightarrow> real" where
  "DURATION_VALUES D16n = 0.125"
| "DURATION_VALUES D8n = 0.25"
| "DURATION_VALUES D8n_dot = 0.375"
| "DURATION_VALUES D4n = 0.5"
| "DURATION_VALUES D4n_dot = 0.75"
| "DURATION_VALUES D2n = 1.0"
| "DURATION_VALUES D2n_dot = 1.5"
| "DURATION_VALUES D1n = 2.0"

datatype MusicStyle = classical | electronic | ambient_style | jazz | rock

record StylePreset =
  baseKey :: string
  scaleType :: ScaleType
  tempoRange :: "real \<times> real"
  preferredWaveforms :: "Waveform list"
  noteDurationBias :: "Duration list"
  reverbAmount :: real

fun STYLE_PRESETS :: "MusicStyle \<Rightarrow> StylePreset" where
  "STYLE_PRESETS classical =
     \<lparr>baseKey = ''C'', scaleType = major, tempoRange = (80, 130),
      preferredWaveforms = [sine, triangle], noteDurationBias = [D4n, D2n, D8n],
      reverbAmount = 0.5\<rparr>"
| "STYLE_PRESETS electronic =
     \<lparr>baseKey = ''A'', scaleType = minor, tempoRange = (110, 150),
      preferredWaveforms = [square, sawtooth], noteDurationBias = [D8n, D16n, D4n],
      reverbAmount = 0.3\<rparr>"
| "STYLE_PRESETS ambient_style =
     \<lparr>baseKey = ''D'', scaleType = pentatonic, tempoRange = (60, 90),
      preferredWaveforms = [sine, triangle], noteDurationBias = [D2n, D1n, D4n_dot],
      reverbAmount = 0.8\<rparr>"
| "STYLE_PRESETS jazz =
     \<lparr>baseKey = ''F'', scaleType = dorian, tempoRange = (90, 140),
      preferredWaveforms = [sine, triangle], noteDurationBias = [D8n_dot, D4n, D8n],
      reverbAmount = 0.4\<rparr>"
| "STYLE_PRESETS rock =
     \<lparr>baseKey = ''E'', scaleType = blues, tempoRange = (100, 150),
      preferredWaveforms = [sawtooth, square], noteDurationBias = [D8n, D4n, D16n],
      reverbAmount = 0.2\<rparr>"

fun style_name :: "MusicStyle \<Rightarrow> string" where
  "style_name classical = ''classical''"
| "style_name electronic = ''electronic''"
| "style_name ambient_style = ''ambient''"
| "style_name jazz = ''jazz''"
| "style_name rock = ''rock''"

text \<open>\<open>MappingConfig\<close>, its groups flattened into one record.\<close>

record MappingConfig =
  functionToMelody_baseOctave :: int
  functionToMelody_scaleType :: ScaleType
  functionToMelody_noteDuration :: Duration
  loopToRhythm_basePattern :: "Duration list"
  loopToRhythm_intensityMultiplier :: real
  conditionalToHarmony_ifChord :: "string list"
  conditionalToHarmony_elseChord :: "string list"
  conditionalToHarmony_switchScale :: ScaleType
  variableToBass_baseOctave :: int
  variableToBass_noteDuration :: Duration
  complexityToTempo_minBPM :: real
  complexityToTempo_maxBPM :: real
  depthToOctave_baseOctave :: int
  depthToOctave_maxOctaveShift :: int
  errorToDissonance_chordIntervals :: "nat list"
  errorToDissonance_waveform :: Waveform

definition DEFAULT_CONFIG :: MappingConfig where
  "DEFAULT_CONFIG =
     \<lparr>functionToMelody_baseOctave = 4,
      functionToMelody_scaleType = major,
      functionToMelody_noteDuration = D4n,
      loopToRhythm_basePattern = [D8n, D8n, D16n, D16n, D8n],
      loopToRhythm_intensityMultiplier = 1.2,
      conditionalToHarmony_ifChord = [''C'', ''E'', ''G''],
      conditionalToHarmony_elseChord = [''A'', ''C'', ''E''],
      conditionalToHarmony_switchScale = mixolydian,
      variableToBass_baseOctave = 2,
      variableToBass_noteDuration = D2n,
      complexityToTempo_minBPM = 70,
      complexityToTempo_maxBPM = 160,
      depthToOctave_baseOctave = 4,
      depthToOctave_maxOctaveShift = 2,
      errorToDissonance_chordIntervals = [1, 6, 11],
      errorToDissonance_waveform = sawtooth\<rparr>"

subsection \<open>Music mapper: the class\<close>

text \<open>
  The fields of \<open>MusicMapper\<close>. Every mapping method returns the notes it made and the
  mapper with the time cursor moved.
\<close>

record MusicMapper =
  config :: MappingConfig
  style :: StylePreset
  currentTime :: real
  tempoMultiplier :: real

text \<open>\<open>new MusicMapper(style)\<close>, without a configuration override (no caller gives one).\<close>

definition new_MusicMapper :: "MusicStyle \<Rightarrow> MusicMapper" where
  "new_MusicMapper st =
     \<lparr>config = DEFAULT_CONFIG, style = STYLE_PRESETS st, currentTime = 0, tempoMultiplier = 1\<rparr>"

definition calculateTempo :: "MusicMapper \<Rightarrow> real \<Rightarrow> int" where
  "calculateTempo mp cplx =
     (let minBPM = complexityToTempo_minBPM (config mp);
          maxBPM = complexityToTempo_maxBPM (config mp);
          range = maxBPM - minBPM
      in round (minBPM + (cplx / 100) * range))"

definition getOctaveForDepth :: "MusicMapper \<Rightarrow> int \<Rightarrow> int" where
  "getOctaveForDepth mp d =
     (let baseOctave = depthToOctave_baseOctave (config mp);
          maxOctaveShift = depthToOctave_maxOctaveShift (config mp);
          shift = min d maxOctaveShift
      in min 7 (max 1 (baseOctave + shift)))"

definition advance :: "real \<Rightarrow> MusicMapper \<Rightarrow> MusicMapper" where
  "advance dt mp = mp\<lparr>currentTime := currentTime mp + dt\<rparr>"

text \<open>
  A loop that pushes one note per item at the cursor and then moves the cursor:
  \<open>mk\<close> makes the note of an item at a time, \<open>dt\<close> is the step after it.
\<close>

fun emit_each ::
  "('a \<Rightarrow> real \<Rightarrow> MusicNote) \<Rightarrow> ('a \<Rightarrow> real) \<Rightarrow> 'a list \<Rightarrow> MusicMapper
     \<Rightarrow> MusicNote list \<times> MusicMapper" where
  "emit_each mk dt [] mp = ([], mp)"
| "emit_each mk dt (x # xs) mp =
     (let (ns, mp') = emit_each mk dt xs (advance (dt x) mp)
      in (mk x (currentTime mp) # ns, mp'))"

text \<open>The note string \<open>`${name}${octave}`\<close>.\<close>

definition note_string :: "string \<Rightarrow> int \<Rightarrow> string" where
  "note_string nm octave = nm @ show_int octave"

definition mapFunction :: "CodeToken \<Rightarrow> MusicMapper \<Rightarrow> MusicNote list \<times> MusicMapper" where
  "mapFunction token mp =
     (let scl = SCALES (scaleType (style mp));
          octave = getOctaveForDepth mp (depth token);
          baseNoteIndex = note_index (baseKey (style mp));
          phraseLength = 3 + (length (tok_value token) mod 3)
      in emit_each
           (\<lambda>i t.
              let scaleIndex = i mod length scl;
                  semitone = (baseNoteIndex + scl ! scaleIndex) mod 12;
                  noteOctave = octave + int ((baseNoteIndex + scl ! scaleIndex) div 12)
              in \<lparr>note_name = note_string (NOTE_NAMES ! semitone) noteOctave, duration = D8n,
                  velocity = 0.7 + (real i * 0.05), time = t, instrument = melody\<rparr>)
           (\<lambda>i. DURATION_VALUES D8n * tempoMultiplier mp)
           [0..<phraseLength] mp)"

definition mapLoop :: "CodeToken \<Rightarrow> MusicMapper \<Rightarrow> MusicNote list \<times> MusicMapper" where
  "mapLoop token mp =
     (let pattern = loopToRhythm_basePattern (config mp);
          octave = getOctaveForDepth mp (depth token);
          reps = (if tok_value token = ''for'' then 2
                  else if tok_value token = ''while'' then 3 else (1::nat))
      in emit_each
           (\<lambda>(r, dur) t.
              \<lparr>note_name = note_string (baseKey (style mp)) octave, duration = dur,
               velocity = 0.6 + (real r * 0.1), time = t, instrument = percussion\<rparr>)
           (\<lambda>(r, dur). DURATION_VALUES dur * tempoMultiplier mp * 0.5)
           (concat (map (\<lambda>r. map (\<lambda>dur. (r, dur)) pattern) [0..<reps])) mp)"

definition mapConditional :: "CodeToken \<Rightarrow> MusicMapper \<Rightarrow> MusicNote list \<times> MusicMapper" where
  "mapConditional token mp =
     (let octave = getOctaveForDepth mp (depth token);
          isElse = (tok_value token = ''else'' \<or> tok_value token = ''elif'');
          chordNotes = (if isElse then conditionalToHarmony_elseChord (config mp)
                        else conditionalToHarmony_ifChord (config mp))
      in (map (\<lambda>chordNote.
                 \<lparr>note_name = note_string chordNote octave, duration = D4n, velocity = 0.5,
                  time = currentTime mp, instrument = harmony\<rparr>) chordNotes,
          advance (DURATION_VALUES D4n * tempoMultiplier mp) mp))"

text \<open>\<open>value.charCodeAt(0) || dflt\<close>: the default for the empty string and for code 0.\<close>

definition charCode_or :: "string \<Rightarrow> nat \<Rightarrow> nat" where
  "charCode_or s dflt =
     (case s of [] \<Rightarrow> dflt | c # _ \<Rightarrow> if (of_char c :: nat) = 0 then dflt else of_char c)"

definition mapVariable :: "CodeToken \<Rightarrow> MusicMapper \<Rightarrow> MusicNote list \<times> MusicMapper" where
  "mapVariable token mp =
     (let baseOctave = variableToBass_baseOctave (config mp);
          charCode = charCode_or (tok_value token) 67;
          noteIndex = charCode mod 12
      in ([\<lparr>note_name = note_string (NOTE_NAMES ! noteIndex) baseOctave, duration = D2n,
            velocity = 0.4, time = currentTime mp, instrument = bass\<rparr>],
          advance (DURATION_VALUES D4n * tempoMultiplier mp) mp))"

definition mapClass :: "CodeToken \<Rightarrow> MusicMapper \<Rightarrow> MusicNote list \<times> MusicMapper" where
  "mapClass token mp =
     (let octave = getOctaveForDepth mp (depth token);
          baseNoteIndex = note_index (baseKey (style mp));
          intervals = [0, 7, 12]
      in (map (\<lambda>interval.
                 let semitone = (baseNoteIndex + interval) mod 12;
                     noteOctave = octave + int ((baseNoteIndex + interval) div 12)
                 in \<lparr>note_name = note_string (NOTE_NAMES ! semitone) noteOctave,
                     duration = D2n, velocity = 0.65, time = currentTime mp,
                     instrument = melody\<rparr>) intervals,
          advance (DURATION_VALUES D2n * tempoMultiplier mp) mp))"

definition mapString :: "CodeToken \<Rightarrow> MusicMapper \<Rightarrow> MusicNote list \<times> MusicMapper" where
  "mapString token mp =
     (let scl = SCALES pentatonic;
          octave = 5;
          scaleIndex = length (tok_value token) mod length scl;
          baseNoteIndex = note_index (baseKey (style mp));
          semitone = (baseNoteIndex + scl ! scaleIndex) mod 12
      in ([\<lparr>note_name = note_string (NOTE_NAMES ! semitone) octave, duration = D4n,
            velocity = 0.35, time = currentTime mp, instrument = ambient\<rparr>],
          advance (DURATION_VALUES D8n * tempoMultiplier mp) mp))"

text \<open>
  \<open>parseFloat(value) || 0\<close> on the strings a number token can hold (the tokenizer's
  pattern: digits, optionally a point and digits); any other string counts as 0 here.
\<close>

definition parseFloat_or_0 :: "string \<Rightarrow> real" where
  "parseFloat_or_0 w =
     (let whole = takeWhile is_digit w; rest = dropWhile is_digit w
      in if whole = [] then 0
         else real_of_int (parseInt whole)
              + (case rest of
                   [] \<Rightarrow> 0
                 | c # fraction \<Rightarrow>
                     if c = CHR ''.'' \<and> list_all is_digit fraction
                     then real_of_int (parseInt fraction) / 10 ^ length fraction
                     else 0))"

definition mapNumber :: "CodeToken \<Rightarrow> MusicMapper \<Rightarrow> MusicNote list \<times> MusicMapper" where
  "mapNumber token mp =
     (let num = parseFloat_or_0 (tok_value token);
          noteIndex = nat \<bar>round num\<bar> mod 12;
          octave = min 7 (max 2 (3 + \<lfloor>num / 100\<rfloor>))
      in ([\<lparr>note_name = note_string (NOTE_NAMES ! noteIndex) octave, duration = D16n,
            velocity = 0.5, time = currentTime mp, instrument = melody\<rparr>],
          advance (DURATION_VALUES D16n * tempoMultiplier mp) mp))"

definition operatorMap :: "string \<rightharpoonup> string" where
  "operatorMap = map_of
     [(''='', ''C3''), (''+'', ''D3''), (''-'', ''E3''), (''*'', ''F3''),
      (''/'', ''G3''), (''%'', ''A3''), (''!'', ''B3''), (''&'', ''C4''),
      (''|'', ''D4''), (''^'', ''E4''), (''<'', ''F4''), (''>'', ''G4''),
      (''?'', ''A4'')]"

definition mapOperator :: "CodeToken \<Rightarrow> MusicMapper \<Rightarrow> MusicNote list \<times> MusicMapper" where
  "mapOperator token mp =
     (let mappedNote = (case operatorMap (tok_value token) of Some n \<Rightarrow> n | None \<Rightarrow> ''C3'')
      in ([\<lparr>note_name = mappedNote, duration = D16n, velocity = 0.3, time = currentTime mp,
            instrument = percussion\<rparr>],
          advance (DURATION_VALUES D16n * tempoMultiplier mp * 0.5) mp))"

definition mapComment :: "CodeToken \<Rightarrow> MusicMapper \<Rightarrow> MusicNote list \<times> MusicMapper" where
  "mapComment token mp =
     (let scl = SCALES pentatonic;
          octave = 5;
          baseNoteIndex = note_index (baseKey (style mp));
          scaleIndex = line token mod length scl;
          semitone = (baseNoteIndex + scl ! scaleIndex) mod 12
      in ([\<lparr>note_name = note_string (NOTE_NAMES ! semitone) octave, duration = D2n,
            velocity = 0.15, time = currentTime mp, instrument = ambient\<rparr>],
          advance (DURATION_VALUES D4n * tempoMultiplier mp) mp))"

definition mapImport :: "CodeToken \<Rightarrow> MusicMapper \<Rightarrow> MusicNote list \<times> MusicMapper" where
  "mapImport token mp =
     (let scl = SCALES (scaleType (style mp));
          baseNoteIndex = note_index (baseKey (style mp))
      in emit_each
           (\<lambda>i t.
              let semitone = (baseNoteIndex + scl ! (i mod length scl)) mod 12
              in \<lparr>note_name = note_string (NOTE_NAMES ! semitone) (4 + int i), duration = D16n,
                  velocity = 0.3, time = t, instrument = ambient\<rparr>)
           (\<lambda>i. DURATION_VALUES D16n * tempoMultiplier mp)
           [0..<3] mp)"

definition mapReturn :: "CodeToken \<Rightarrow> MusicMapper \<Rightarrow> MusicNote list \<times> MusicMapper" where
  "mapReturn token mp =
     (let baseNoteIndex = note_index (baseKey (style mp));
          n1 = \<lparr>note_name = note_string (NOTE_NAMES ! ((baseNoteIndex + 4) mod 12)) 4,
                duration = D8n, velocity = 0.5, time = currentTime mp, instrument = melody\<rparr>;
          mp1 = advance (DURATION_VALUES D8n * tempoMultiplier mp) mp;
          n2 = \<lparr>note_name = note_string (NOTE_NAMES ! baseNoteIndex) 4,
                duration = D4n, velocity = 0.6, time = currentTime mp1, instrument = melody\<rparr>;
          mp2 = advance (DURATION_VALUES D4n * tempoMultiplier mp1) mp1
      in ([n1, n2], mp2))"

definition mapError :: "CodeToken \<Rightarrow> MusicMapper \<Rightarrow> MusicNote list \<times> MusicMapper" where
  "mapError token mp =
     (let intervals = errorToDissonance_chordIntervals (config mp);
          baseNoteIndex = note_index (baseKey (style mp))
      in (map (\<lambda>interval.
                 let semitone = (baseNoteIndex + interval) mod 12
                 in \<lparr>note_name = note_string (NOTE_NAMES ! semitone) 3, duration = D8n,
                     velocity = 0.8, time = currentTime mp, instrument = dissonance\<rparr>)
              intervals,
          advance (DURATION_VALUES D8n * tempoMultiplier mp) mp))"

definition mapBracketOpen :: "CodeToken \<Rightarrow> MusicMapper \<Rightarrow> MusicNote list \<times> MusicMapper" where
  "mapBracketOpen token mp =
     (let octave = getOctaveForDepth mp (depth token)
      in ([\<lparr>note_name = note_string (baseKey (style mp)) octave, duration = D16n,
            velocity = 0.2, time = currentTime mp, instrument = ambient\<rparr>], mp))"

definition mapBracketClose :: "CodeToken \<Rightarrow> MusicMapper \<Rightarrow> MusicNote list \<times> MusicMapper" where
  "mapBracketClose token mp =
     (let octave = max 2 (getOctaveForDepth mp (depth token) - 1)
      in ([\<lparr>note_name = note_string (baseKey (style mp)) octave, duration = D16n,
            velocity = 0.2, time = currentTime mp, instrument = ambient\<rparr>], mp))"

definition mapWhitespace :: "MusicMapper \<Rightarrow> MusicNote list \<times> MusicMapper" where
  "mapWhitespace mp = ([], advance (DURATION_VALUES D8n * tempoMultiplier mp * 0.3) mp)"

definition mapDefault :: "CodeToken \<Rightarrow> MusicMapper \<Rightarrow> MusicNote list \<times> MusicMapper" where
  "mapDefault token mp =
     (let charCode = charCode_or (tok_value token) 0 mod 12;
          octave = getOctaveForDepth mp (depth token)
      in ([\<lparr>note_name = note_string (NOTE_NAMES ! charCode) octave, duration = D16n,
            velocity = 0.15, time = currentTime mp, instrument = ambient\<rparr>],
          advance (DURATION_VALUES D16n * tempoMultiplier mp * 0.3) mp))"

definition mapToken :: "CodeToken \<Rightarrow> MusicMapper \<Rightarrow> MusicNote list \<times> MusicMapper" where
  "mapToken token mp =
     (case tok_type token of
        T_function \<Rightarrow> mapFunction token mp
      | T_loop \<Rightarrow> mapLoop token mp
      | T_conditional \<Rightarrow> mapConditional token mp
      | T_variable \<Rightarrow> mapVariable token mp
      | T_class \<Rightarrow> mapClass token mp
      | T_string \<Rightarrow> mapString token mp
      | T_number \<Rightarrow> mapNumber token mp
      | T_operator \<Rightarrow> mapOperator token mp
      | T_comment \<Rightarrow> mapComment token mp
      | T_import \<Rightarrow> mapImport token mp
      | T_return \<Rightarrow> mapReturn token mp
      | T_error \<Rightarrow> mapError token mp
      | T_bracket_open \<Rightarrow> mapBracketOpen token mp
      | T_bracket_close \<Rightarrow> mapBracketClose token mp
      | T_whitespace \<Rightarrow> mapWhitespace mp
      | _ \<Rightarrow> mapDefault token mp)"

text \<open>The loop of \<open>mapToNotes\<close> over the tokens.\<close>

fun map_tokens :: "CodeToken list \<Rightarrow> MusicMapper \<Rightarrow> MusicNote list \<times> MusicMapper" where
  "map_tokens [] mp = ([], mp)"
| "map_tokens (token # rest) mp =
     (let (ns, mp1) = mapToken token mp;
          (allNotes, mp2) = map_tokens rest mp1
      in (ns @ allNotes, mp2))"

definition mapToNotes :: "CodeAnalysis \<Rightarrow> MusicMapper \<Rightarrow> MusicNote list \<times> MusicMapper" where
  "mapToNotes analysis mp =
     (let tempo0 = calculateTempo mp (real_of_int (metric_complexity (metrics analysis)));
          mp0 = mp\<lparr>currentTime := 0, tempoMultiplier := 120 / real_of_int tempo0\<rparr>
      in map_tokens (tokens analysis) mp0)"

definition getTotalDuration :: "MusicMapper \<Rightarrow> real" where
  "getTotalDuration mp = currentTime mp"

subsection \<open>Composer (composer.ts)\<close>

record InstrumentConfig =
  cfg_waveform :: Waveform
  cfg_volume :: real
  cfg_effects :: "TrackEffect list"

fun INSTRUMENT_CONFIGS :: "InstrumentType \<Rightarrow> InstrumentConfig" where
  "INSTRUMENT_CONFIGS melody =
     \<lparr>cfg_waveform = triangle, cfg_volume = 0.7,
      cfg_effects = [\<lparr>etype = reverb, params = [(''decay'', 2.5), (''wet'', 0.3)]\<rparr>]\<rparr>"
| "INSTRUMENT_CONFIGS bass =
     \<lparr>cfg_waveform = sine, cfg_volume = 0.5,
      cfg_effects = [\<lparr>etype = filter_effect, params = [(''frequency'', 400), (''type'', 0)]\<rparr>]\<rparr>"
| "INSTRUMENT_CONFIGS harmony =
     \<lparr>cfg_waveform = sine, cfg_volume = 0.4,
      cfg_effects = [\<lparr>etype = reverb, params = [(''decay'', 4), (''wet'', 0.5)]\<rparr>,
                     \<lparr>etype = chorus, params = [(''frequency'', 1.5), (''depth'', 0.7)]\<rparr>]\<rparr>"
| "INSTRUMENT_CONFIGS percussion =
     \<lparr>cfg_waveform = square, cfg_volume = 0.5,
      cfg_effects = [\<lparr>etype = distortion, params = [(''amount'', 0.2)]\<rparr>]\<rparr>"
| "INSTRUMENT_CONFIGS ambient =
     \<lparr>cfg_waveform = sine, cfg_volume = 0.2,
      cfg_effects = [\<lparr>etype = reverb, params = [(''decay'', 6), (''wet'', 0.7)]\<rparr>,
                     \<lparr>etype = delay, params = [(''time'', 0.4), (''feedback'', 0.3)]\<rparr>]\<rparr>"
| "INSTRUMENT_CONFIGS dissonance =
     \<lparr>cfg_waveform = sawtooth, cfg_volume = 0.6,
      cfg_effects = [\<lparr>etype = distortion, params = [(''amount'', 0.5)]\<rparr>,
                     \<lparr>etype = filter_effect, params = [(''frequency'', 2000), (''type'', 1)]\<rparr>]\<rparr>"

text \<open>
  \<open>generateInterpretation\<close>. The parts are joined with a comma and a blank and closed with
  a full stop; the dash of the error part is kept as the bytes the source file stores.
\<close>

fun join_parts :: "string list \<Rightarrow> string" where
  "join_parts [] = []"
| "join_parts [p] = p"
| "join_parts (p # q # ps) = p @ '', '' @ join_parts (q # ps)"

definition generateInterpretation :: "CodeAnalysis \<Rightarrow> MusicStyle \<Rightarrow> string" where
  "generateInterpretation analysis st =
     (let m = metrics analysis;
          vibe = (if metric_complexity m > 70
                  then [''A complex, intense composition reflecting deeply nested logic'']
                  else if metric_complexity m > 40
                  then [''A balanced piece with moderate complexity'']
                  else [''A clean, minimalist arrangement reflecting simple, elegant code'']);
          functions = (if functionCount m > 5
                  then [''with '' @ show_nat (functionCount m)
                        @ '' melodic phrases representing well-organized functions'']
                  else if functionCount m > 0
                  then [''featuring '' @ show_nat (functionCount m) @ '' melodic theme''
                        @ (if functionCount m > 1 then ''s'' else '''')]
                  else []);
          loops = (if loopCount m > 3
                  then [''driven by strong, repetitive rhythmic patterns'']
                  else if loopCount m > 0
                  then [''with subtle rhythmic elements'']
                  else []);
          conditionals = (if conditionalCount m > 5
                  then [''rich harmonic changes reflecting branching logic'']
                  else if conditionalCount m > 0
                  then [''and gentle harmonic shifts'']
                  else []);
          errors = (if errorCount m > 0
                  then [raw_bytes [226, 128, 148] @ '' with '' @ show_nat (errorCount m)
                        @ '' dissonant moment'' @ (if errorCount m > 1 then ''s'' else '''')
                        @ '' signaling potential issues'']
                  else []);
          rendered = [''Rendered in '' @ style_name st @ '' style''];
          source = [''from '' @ language_name (language analysis) @ '' source code (''
                    @ show_nat (totalLines m) @ '' lines)'']
      in join_parts (vibe @ functions @ loops @ conditionals @ errors @ rendered @ source)
         @ ''.'')"

text \<open>
  \<open>simpleHash\<close>: \<open>hash = ((hash << 5) - hash) + char; hash = hash & hash\<close> for every
  character, then the absolute value in hexadecimal, padded to eight digits.
\<close>

definition hash_step :: "int \<Rightarrow> char \<Rightarrow> int" where
  "hash_step h c = (let h' = (js_shl h 5 - h) + of_char c in js_and h' h')"

definition to_hex :: "int \<Rightarrow> string" where
  "to_hex n = digits_acc 16 n []"

definition padStart :: "nat \<Rightarrow> char \<Rightarrow> string \<Rightarrow> string" where
  "padStart n c s = replicate (n - length s) c @ s"

definition simpleHash :: "string \<Rightarrow> string" where
  "simpleHash str = padStart 8 CHR ''0'' (to_hex \<bar>foldl hash_step 0 str\<bar>)"

text \<open>
  \<open>organizeTracks\<close>. The \<open>Map\<close> keeps its keys in the order of their first insertion: an
  association list, a new instrument appended at the end.
\<close>

fun trackMap_push ::
  "MusicNote \<Rightarrow> (InstrumentType \<times> MusicNote list) list
     \<Rightarrow> (InstrumentType \<times> MusicNote list) list" where
  "trackMap_push n [] = [(instrument n, [n])]"
| "trackMap_push n ((k, ns) # rest) =
     (if k = instrument n then (k, ns @ [n]) # rest else (k, ns) # trackMap_push n rest)"

definition group_by_instrument ::
  "MusicNote list \<Rightarrow> (InstrumentType \<times> MusicNote list) list" where
  "group_by_instrument ns = foldl (\<lambda>trackMap n. trackMap_push n trackMap) [] ns"

text \<open>The track names start with a pictogram; it is kept as the bytes of the source file.\<close>

fun getTrackName :: "InstrumentType \<Rightarrow> string" where
  "getTrackName melody = raw_bytes [240, 159, 142, 181] @ '' Melody (Functions & Logic)''"
| "getTrackName bass = raw_bytes [240, 159, 142, 184] @ '' Bass (Variables & Data)''"
| "getTrackName harmony =
     raw_bytes [240, 159, 142, 185] @ '' Harmony (Conditionals & Branches)''"
| "getTrackName percussion = raw_bytes [240, 159, 165, 129] @ '' Rhythm (Loops & Iterations)''"
| "getTrackName ambient = raw_bytes [240, 159, 140, 138] @ '' Ambient (Comments & Structure)''"
| "getTrackName dissonance = raw_bytes [226, 154, 161] @ '' Dissonance (Errors & Warnings)''"

definition organizeTracks :: "MusicNote list \<Rightarrow> MusicStyle \<Rightarrow> MusicTrack list" where
  "organizeTracks ns st =
     map (\<lambda>(instr, trackNotes).
            let cfg = INSTRUMENT_CONFIGS instr
            in \<lparr>name = getTrackName instr, track_instrument = instr,
                waveform = cfg_waveform cfg, volume = cfg_volume cfg,
                track_notes = trackNotes, effects = cfg_effects cfg\<rparr>)
         (group_by_instrument ns)"

fun languageKeys :: "CodeLanguage \<Rightarrow> nat \<times> ScaleType" where
  "languageKeys javascript = (0, mixolydian)"
| "languageKeys typescript = (2, major)"
| "languageKeys python = (5, pentatonic)"
| "languageKeys java = (7, minor)"
| "languageKeys csharp = (4, lydian)"
| "languageKeys go = (9, dorian)"
| "languageKeys rust = (11, blues)"
| "languageKeys unknown = (0, major)"

text \<open>
  \<open>buildComposition\<close>. \<open>new Date().toISOString()\<close> reads the clock: the reading is the
  first argument.
\<close>

definition buildComposition ::
  "string \<Rightarrow> string \<Rightarrow> CodeAnalysis \<Rightarrow> MusicTrack list \<Rightarrow> int \<Rightarrow> real \<Rightarrow> MusicStyle
     \<Rightarrow> MusicComposition" where
  "buildComposition now code analysis trks tempo0 totalDuration st =
     (let langConfig = languageKeys (language analysis);
          md = \<lparr>sourceLanguage = language analysis,
                linesAnalyzed = totalLines (metrics analysis),
                complexity = metric_complexity (metrics analysis),
                generatedAt = now,
                codeHash = simpleHash code,
                musicalInterpretation = generateInterpretation analysis st\<rparr>
      in \<lparr>title = ''CodeSonify: '' @ language_name (language analysis) @ '' composition'',
          tempo = real_of_int tempo0,
          timeSignature = (4, 4),
          key = NOTE_NAMES ! fst langConfig,
          scale = snd langConfig,
          total_duration = totalDuration,
          tracks = trks,
          metadata = md\<rparr>)"

record SonifyRequest =
  req_code :: string
  req_language :: "CodeLanguage option"
  req_style :: "MusicStyle option"

text \<open>
  \<open>sonify\<close>. The response is the composition and the analysis; the visualization data
  (a sine-wave preview for the web page) is not part of the composition and is left out.
\<close>

record SonifyResponse =
  composition :: MusicComposition
  analysis :: CodeAnalysis

definition sonify :: "string \<Rightarrow> SonifyRequest \<Rightarrow> SonifyResponse" where
  "sonify now request =
     (let code = req_code request;
          lang = req_language request;
          st = (case req_style request of Some s \<Rightarrow> s | None \<Rightarrow> classical);
          an = analyze code lang;
          mapper = new_MusicMapper st;
          (ns, mapper') = mapToNotes an mapper;
          tempo0 = calculateTempo mapper' (real_of_int (metric_complexity (metrics an)));
          totalDuration = getTotalDuration mapper';
          trks = organizeTracks ns st;
          comp = buildComposition now code an trks tempo0 totalDuration st
      in \<lparr>composition = comp, analysis = an\<rparr>)"

subsection \<open>Diff sonifier (diff.ts)\<close>

datatype DiffLineType = DL_added | DL_removed | DL_context | DL_header

record DiffLine =
  dl_type :: DiffLineType
  content :: string
  lineNumber :: nat

record DiffAnalysis =
  addedLines :: nat
  removedLines :: nat
  contextLines :: nat
  totalChanges :: nat
  changeRatio :: real
  files :: "string list"

definition parse_line :: "nat \<Rightarrow> string \<Rightarrow> DiffLine" where
  "parse_line lineNum l =
     (if startsWith l ''+++'' \<or> startsWith l ''---'' \<or> startsWith l ''diff ''
         \<or> startsWith l ''index ''
      then \<lparr>dl_type = DL_header, content = l, lineNumber = lineNum\<rparr>
      else if startsWith l ''@@''
      then \<lparr>dl_type = DL_header, content = l, lineNumber = lineNum\<rparr>
      else if startsWith l ''+''
      then \<lparr>dl_type = DL_added, content = drop 1 l, lineNumber = lineNum\<rparr>
      else if startsWith l ''-''
      then \<lparr>dl_type = DL_removed, content = drop 1 l, lineNumber = lineNum\<rparr>
      else \<lparr>dl_type = DL_context, content = l, lineNumber = lineNum\<rparr>)"

fun parse_lines :: "nat \<Rightarrow> string list \<Rightarrow> DiffLine list" where
  "parse_lines lineNum [] = []"
| "parse_lines lineNum (l # ls) = parse_line (lineNum + 1) l # parse_lines (lineNum + 1) ls"

definition parseDiff :: "string \<Rightarrow> DiffLine list" where
  "parseDiff diffText = parse_lines 0 (split_on newline diffText)"

text \<open>\<open>s.replace(pat, '')\<close> with a string pattern: the first occurrence goes.\<close>

fun remove_first :: "string \<Rightarrow> string \<Rightarrow> string" where
  "remove_first pat [] = []"
| "remove_first pat (c # cs) =
     (if startsWith (c # cs) pat then drop (length pat) (c # cs) else c # remove_first pat cs)"

definition count_lines :: "DiffLineType \<Rightarrow> DiffLine list \<Rightarrow> nat" where
  "count_lines ty diffLines = length (filter (\<lambda>l. dl_type l = ty) diffLines)"

definition file_of_line :: "DiffLine \<Rightarrow> string list" where
  "file_of_line l =
     (if startsWith (content l) ''+++ b/'' \<or> startsWith (content l) ''+++ ''
      then let filename = trim (remove_first ''+++ '' (remove_first ''+++ b/'' (content l)))
           in if filename \<noteq> [] \<and> filename \<noteq> ''/dev/null'' then [filename] else []
      else [])"

definition analyzeDiff :: "DiffLine list \<Rightarrow> DiffAnalysis" where
  "analyzeDiff diffLines =
     (let added = count_lines DL_added diffLines;
          removed = count_lines DL_removed diffLines;
          ctx = count_lines DL_context diffLines;
          total = added + removed
      in \<lparr>addedLines = added, removedLines = removed, contextLines = ctx,
          totalChanges = total,
          changeRatio = (if total > 0 then real added / real total else 0.5),
          files = concat (map file_of_line diffLines)\<rparr>)"

text \<open>
  The body of the loop of \<open>mapDiffToNotes\<close> for one line: the notes it pushes and the
  new value of the local time cursor. \<open>NOTE_NAMES.indexOf(key) || 0\<close> is the index of
  the key (one of C, A and D). A phrase has at most five notes, so no operand of a
  remainder is negative.
\<close>

fun phrase_notes ::
  "(nat \<Rightarrow> real \<Rightarrow> MusicNote) \<Rightarrow> real \<Rightarrow> nat list \<Rightarrow> real \<Rightarrow> MusicNote list \<times> real" where
  "phrase_notes mk dt [] t = ([], t)"
| "phrase_notes mk dt (i # rest) t =
     (let (ns, t') = phrase_notes mk dt rest (t + dt) in (mk i t # ns, t'))"

definition map_diff_line ::
  "string \<Rightarrow> real \<Rightarrow> DiffLine \<Rightarrow> real \<Rightarrow> MusicNote list \<times> real" where
  "map_diff_line ky tempoMult l t =
     (let majorScale = SCALES major;
          minorScale = SCALES minor;
          pentatonicScale = SCALES pentatonic;
          keyIndex = note_index ky
      in case dl_type l of
           DL_header \<Rightarrow>
             ([\<lparr>note_name = ky @ ''5'', duration = D16n, velocity = 0.2, time = t,
                instrument = ambient\<rparr>],
              t + 0.1 * tempoMult)
         | DL_context \<Rightarrow>
             (let scaleIdx = lineNumber l mod length pentatonicScale;
                  semitone = (keyIndex + pentatonicScale ! scaleIdx) mod 12
              in ([\<lparr>note_name = NOTE_NAMES ! semitone @ ''3'', duration = D4n,
                    velocity = 0.15, time = t, instrument = ambient\<rparr>],
                  t + 0.15 * tempoMult))
         | DL_added \<Rightarrow>
             (let contentLength = length (trim (content l));
                  phraseNotes = min 5 (max 1 (contentLength div 10 + 1));
                  (phrase, t1) =
                    phrase_notes
                      (\<lambda>i tm.
                         let scaleIdx = i mod length majorScale;
                             semitone = (keyIndex + majorScale ! scaleIdx) mod 12;
                             octave = 4 + i div length majorScale
                         in \<lparr>note_name = NOTE_NAMES ! semitone @ show_nat (min 6 octave),
                             duration = D8n, velocity = 0.6 + (real i * 0.05), time = tm,
                             instrument = melody\<rparr>)
                      (0.12 * tempoMult) [0..<phraseNotes] t;
                  chord =
                    (if contentLength > 20
                     then map (\<lambda>interval.
                                 let semitone = (keyIndex + interval) mod 12
                                 in \<lparr>note_name = NOTE_NAMES ! semitone @ ''4'', duration = D4n,
                                     velocity = 0.35, time = t1, instrument = harmony\<rparr>)
                              [0, 4, 7]
                     else [])
              in (phrase @ chord, t1 + 0.1 * tempoMult))
         | DL_removed \<Rightarrow>
             (let contentLength = length (trim (content l));
                  phraseNotes = min 4 (max 1 (contentLength div 12 + 1));
                  (phrase, t1) =
                    phrase_notes
                      (\<lambda>i tm.
                         let scaleIdx = (int (length minorScale) - 1 - int i)
                                          mod int (length minorScale);
                             semitone = (keyIndex + minorScale ! nat \<bar>scaleIdx\<bar>) mod 12;
                             octave = 4 - int (i div length minorScale)
                         in \<lparr>note_name = NOTE_NAMES ! semitone @ show_int (max 2 octave),
                             duration = D8n, velocity = 0.45 - (real i * 0.05), time = tm,
                             instrument = bass\<rparr>)
                      (0.15 * tempoMult) [0..<phraseNotes] t
              in (phrase @ [\<lparr>note_name = ky @ ''2'', duration = D16n, velocity = 0.3,
                              time = t1, instrument = percussion\<rparr>],
                  t1 + 0.08 * tempoMult)))"

fun map_diff_lines :: "string \<Rightarrow> real \<Rightarrow> DiffLine list \<Rightarrow> real \<Rightarrow> MusicNote list" where
  "map_diff_lines ky tempoMult [] t = []"
| "map_diff_lines ky tempoMult (l # ls) t =
     (let (ns, t') = map_diff_line ky tempoMult l t
      in ns @ map_diff_lines ky tempoMult ls t')"

definition mapDiffToNotes :: "DiffLine list \<Rightarrow> string \<Rightarrow> ScaleType \<Rightarrow> int \<Rightarrow> MusicNote list" where
  "mapDiffToNotes diffLines ky scl tempo0 =
     map_diff_lines ky (120 / real_of_int tempo0) diffLines 0"

text \<open>
  \<open>organizeDiffTracks\<close>: the same grouping; the tables have five instruments, any other
  one takes the configuration of \<open>ambient\<close> and its own name. The pictograms of the
  names are kept as the bytes of the source file.
\<close>

fun diff_trackConfigs :: "InstrumentType \<Rightarrow> InstrumentConfig" where
  "diff_trackConfigs melody =
     \<lparr>cfg_waveform = triangle, cfg_volume = 0.7,
      cfg_effects = [\<lparr>etype = reverb, params = [(''decay'', 2), (''wet'', 0.3)]\<rparr>]\<rparr>"
| "diff_trackConfigs bass =
     \<lparr>cfg_waveform = sine, cfg_volume = 0.5,
      cfg_effects = [\<lparr>etype = filter_effect, params = [(''frequency'', 400), (''type'', 0)]\<rparr>]\<rparr>"
| "diff_trackConfigs harmony =
     \<lparr>cfg_waveform = sine, cfg_volume = 0.4,
      cfg_effects = [\<lparr>etype = reverb, params = [(''decay'', 3), (''wet'', 0.5)]\<rparr>]\<rparr>"
| "diff_trackConfigs percussion =
     \<lparr>cfg_waveform = square, cfg_volume = 0.4, cfg_effects = []\<rparr>"
| "diff_trackConfigs ambient =
     \<lparr>cfg_waveform = sine, cfg_volume = 0.2,
      cfg_effects = [\<lparr>etype = reverb, params = [(''decay'', 5), (''wet'', 0.6)]\<rparr>]\<rparr>"
| "diff_trackConfigs dissonance =
     \<lparr>cfg_waveform = sine, cfg_volume = 0.2,
      cfg_effects = [\<lparr>etype = reverb, params = [(''decay'', 5), (''wet'', 0.6)]\<rparr>]\<rparr>"

fun diff_trackNames :: "InstrumentType \<Rightarrow> string" where
  "diff_trackNames melody =
     raw_bytes [195, 162, 197, 147, 194, 168] @ '' Additions (Ascending Major)''"
| "diff_trackNames bass =
     raw_bytes [195, 176, 197, 184, 226, 128, 157, 194, 187] @ '' Deletions (Descending Minor)''"
| "diff_trackNames harmony =
     raw_bytes [195, 176, 197, 184, 197, 189, 194, 185] @ '' Significant Changes (Chords)''"
| "diff_trackNames percussion = raw_bytes [195, 176, 197, 184, 194, 165] @ '' Change Markers''"
| "diff_trackNames ambient =
     raw_bytes [195, 176, 197, 184, 197, 146, 197, 160] @ '' Context & Headers''"
| "diff_trackNames dissonance = ''dissonance''"

definition organizeDiffTracks :: "MusicNote list \<Rightarrow> MusicTrack list" where
  "organizeDiffTracks ns =
     map (\<lambda>(instr, trackNotes).
            let cfg = diff_trackConfigs instr
            in \<lparr>name = diff_trackNames instr, track_instrument = instr,
                waveform = cfg_waveform cfg, volume = cfg_volume cfg,
                track_notes = trackNotes, effects = cfg_effects cfg\<rparr>)
         (group_by_instrument ns)"

definition generateDiffInterpretation :: "DiffAnalysis \<Rightarrow> MusicStyle \<Rightarrow> string" where
  "generateDiffInterpretation da st =
     (let mood =
            (if changeRatio da > 0.8
             then ''A bright, optimistic composition reflecting significant new code additions''
             else if changeRatio da > 0.6
             then ''A mostly uplifting piece with new code dominating the melody''
             else if changeRatio da > 0.4
             then ''A balanced composition reflecting equal parts creation and removal ''
                  @ raw_bytes [195, 162, 226, 130, 172, 226, 128, 157]
                  @ '' a refactoring journey''
             else if changeRatio da > 0.2
             then ''A contemplative piece where code cleanup dominates ''
                  @ raw_bytes [195, 162, 226, 130, 172, 226, 128, 157]
                  @ '' simplification in progress''
             else ''A minimalist, descending composition reflecting major code removal ''
                  @ raw_bytes [195, 162, 226, 130, 172, 226, 128, 157] @ '' a bold cleanup'');
          counts = show_nat (addedLines da) @ '' lines added, '' @ show_nat (removedLines da)
                   @ '' lines removed'';
          across =
            (if length (files da) > 0
             then [''across '' @ show_nat (length (files da)) @ '' file''
                   @ (if length (files da) > 1 then ''s'' else '''')]
             else []);
          rendered = ''rendered in '' @ style_name st @ '' style''
      in join_parts ([mood, counts] @ across @ [rendered]) @ ''.'')"

text \<open>\<open>Math.max(...xs)\<close> of a non-empty list.\<close>

definition Math_max :: "real list \<Rightarrow> real" where
  "Math_max xs = fold max (tl xs) (hd xs)"

text \<open>
  \<open>sonifyDiff\<close>; the clock reading is the first argument. The response is the
  composition and the analysis of the diff; the summary text for the chat is left out.
\<close>

record DiffResponse =
  diff_composition :: MusicComposition
  diffAnalysis :: DiffAnalysis

definition sonifyDiff :: "string \<Rightarrow> string \<Rightarrow> MusicStyle \<Rightarrow> DiffResponse" where
  "sonifyDiff now diffText st =
     (let diffLines = parseDiff diffText;
          da = analyzeDiff diffLines;
          isMainlyAdding = changeRatio da > 0.6;
          isMainlyRemoving = changeRatio da < 0.4;
          ky = (if isMainlyAdding then ''C'' else if isMainlyRemoving then ''A'' else ''D'');
          scl = (if isMainlyAdding then major else if isMainlyRemoving then minor else dorian);
          tempo0 = min 160 (max 70 (80 + int (totalChanges da) * 2));
          ns = mapDiffToNotes diffLines ky scl tempo0;
          trks = organizeDiffTracks ns;
          totalDuration = (if length ns > 0 then Math_max (map time ns) + 1 else 5);
          comp =
            \<lparr>title = ''CodeSonify: Diff Composition ('' @ show_nat (addedLines da) @ ''+ / ''
                      @ show_nat (removedLines da) @ ''-)'',
             tempo = real_of_int tempo0,
             timeSignature = (4, 4),
             key = ky,
             scale = scl,
             total_duration = totalDuration,
             tracks = trks,
             metadata =
               \<lparr>sourceLanguage = unknown,
                linesAnalyzed = length diffLines,
                complexity = min 100 (int (totalChanges da) * 3),
                generatedAt = now,
                codeHash = simpleHash diffText,
                musicalInterpretation = generateDiffInterpretation da st\<rparr>\<rparr>
      in \<lparr>diff_composition = comp, diffAnalysis = da\<rparr>)"

text \<open>
  \<open>sonifyTwoVersions\<close>: the two versions are sonified on their own, and a pseudo-diff
  that pairs their lines by index goes through \<open>sonifyDiff\<close>. The clock is read three
  times.
\<close>

fun pseudo_diff_lines :: "string list \<Rightarrow> string list \<Rightarrow> string" where
  "pseudo_diff_lines [] [] = []"
| "pseudo_diff_lines [] (newLine # newLines) =
     ''+'' @ newLine @ [newline] @ pseudo_diff_lines [] newLines"
| "pseudo_diff_lines (oldLine # oldLines) [] =
     ''-'' @ oldLine @ [newline] @ pseudo_diff_lines oldLines []"
| "pseudo_diff_lines (oldLine # oldLines) (newLine # newLines) =
     (if oldLine \<noteq> newLine
      then ''-'' @ oldLine @ [newline] @ ''+'' @ newLine @ [newline]
      else '' '' @ oldLine @ [newline])
     @ pseudo_diff_lines oldLines newLines"

record TwoVersionsResponse =
  tv_composition :: MusicComposition
  tv_diffAnalysis :: DiffAnalysis
  oldComposition :: MusicComposition
  newComposition :: MusicComposition

definition sonifyTwoVersions ::
  "string \<Rightarrow> string \<Rightarrow> string \<Rightarrow> string \<Rightarrow> string \<Rightarrow> MusicStyle \<Rightarrow> TwoVersionsResponse" where
  "sonifyTwoVersions now1 now2 now3 oldCode newCode st =
     (let oldResult = sonify now1 \<lparr>req_code = oldCode, req_language = None, req_style = Some st\<rparr>;
          newResult = sonify now2 \<lparr>req_code = newCode, req_language = None, req_style = Some st\<rparr>;
          diffText = ''--- a/old.code'' @ [newline] @ ''+++ b/new.code'' @ [newline]
                     @ ''@@ -1 +1 @@'' @ [newline]
                     @ pseudo_diff_lines (split_on newline oldCode) (split_on newline newCode);
          r = sonifyDiff now3 diffText st
      in \<lparr>tv_composition = diff_composition r, tv_diffAnalysis = diffAnalysis r,
          oldComposition = composition oldResult, newComposition = composition newResult\<rparr>)"

section \<open>Notions used to state the properties\<close>

text \<open>None of the definitions of this section is part of the source.\<close>

text \<open>
  The source has an encoder of variable-length quantities and no decoder. This is the
  reader that the file format prescribes: seven bits per byte, most significant first,
  the last byte has the top bit clear. It returns the value and the rest of the stream,
  or nothing when the stream ends inside a quantity.
\<close>

fun decodeVLQ_from :: "int \<Rightarrow> int list \<Rightarrow> (int \<times> int list) option" where
  "decodeVLQ_from acc [] = None"
| "decodeVLQ_from acc (b # bs) =
     (let acc' = acc * 128 + (b AND 0x7F)
      in if b AND 0x80 = 0 then Some (acc', bs) else decodeVLQ_from acc' bs)"

definition decodeVLQ :: "int list \<Rightarrow> (int \<times> int list) option" where
  "decodeVLQ bytes = decodeVLQ_from 0 bytes"

text \<open>The guard of the note loop, \<open>midiNote < 0 || midiNote > 127\<close>, negated.\<close>

definition pitch_in_range :: "MusicNote \<Rightarrow> bool" where
  "pitch_in_range n =
     (\<not> (noteStringToMidi (note_name n) < 0 \<or> noteStringToMidi (note_name n) > 127))"

text \<open>A track without the notes whose pitch is out of range.\<close>

definition drop_out_of_range :: "MusicTrack \<Rightarrow> MusicTrack" where
  "drop_out_of_range t = t\<lparr>track_notes := filter pitch_in_range (track_notes t)\<rparr>"

text \<open>The style a request asks for (\<open>style = 'classical'\<close> when it names none).\<close>

definition style_of :: "SonifyRequest \<Rightarrow> MusicStyle" where
  "style_of r = (case req_style r of Some s \<Rightarrow> s | None \<Rightarrow> classical)"

text \<open>All notes of a composition, track by track.\<close>

definition all_notes :: "MusicComposition \<Rightarrow> MusicNote list" where
  "all_notes c = concat (map track_notes (tracks c))"

text \<open>The notes \<open>sonifyDiff\<close> makes of a diff text, before they are grouped into tracks.\<close>

definition diff_notes :: "string \<Rightarrow> MusicNote list" where
  "diff_notes d =
     (let da = analyzeDiff (parseDiff d)
      in mapDiffToNotes (parseDiff d)
           (if changeRatio da > 0.6 then ''C'' else if changeRatio da < 0.4 then ''A'' else ''D'')
           (if changeRatio da > 0.6 then major else if changeRatio da < 0.4 then minor else dorian)
           (min 160 (max 70 (80 + int (totalChanges da) * 2))))"

text \<open>The cursor went from \<open>t\<close> to \<open>t'\<close> and every note starts in between.\<close>

definition notes_within :: "real \<Rightarrow> MusicNote list \<Rightarrow> real \<Rightarrow> bool" where
  "notes_within t ns t' = (t \<le> t' \<and> list_all (\<lambda>n. t \<le> time n \<and> time n \<le> t') ns)"

subsection \<open>Sample inputs\<close>

text \<open>Sample values: a quarter note, a one-track composition at 120 BPM.\<close>

definition sample_note :: "string \<Rightarrow> real \<Rightarrow> MusicNote" where
  "sample_note p t =
     \<lparr>note_name = p, duration = D4n, velocity = 0.5, time = t, instrument = melody\<rparr>"

definition sample_track :: "MusicNote list \<Rightarrow> MusicTrack" where
  "sample_track ns =
     \<lparr>name = ''Melody'', track_instrument = melody, waveform = triangle, volume = 0.7,
      track_notes = ns, effects = []\<rparr>"

definition sample_composition :: "MusicNote list \<Rightarrow> MusicComposition" where
  "sample_composition ns =
     \<lparr>title = ''sample'', tempo = 120, timeSignature = (4, 4), key = ''C'', scale = major,
      total_duration = 5, tracks = [sample_track ns],
      metadata = \<lparr>sourceLanguage = unknown, linesAnalyzed = 1, complexity = 3,
                  generatedAt = ''2026-01-01T00:00:00.000Z'', codeHash = ''00000000'',
                  musicalInterpretation = ''''\<rparr>\<rparr>"

text \<open>The diff of the scenario: two headers, a hunk header, one line added, one removed.\<close>

definition scenario_diff :: string where
  "scenario_diff =
     ''--- a'' @ [newline] @ ''+++ b'' @ [newline] @ ''@@ -1 +1 @@'' @ [newline]
     @ ''+hello'' @ [newline] @ ''-world'' @ [newline]"

definition request :: "string \<Rightarrow> SonifyRequest" where
  "request code = \<lparr>req_code = code, req_language = None, req_style = None\<rparr>"

section \<open>Properties of the pipeline\<close>

subsection \<open>Bitwise operators on small non-negative numbers\<close>

lemma toInt32_id: "0 \<le> v \<Longrightarrow> v < 2 ^ 31 \<Longrightarrow> toInt32 v = v"
  unfolding toInt32_def
  by (simp add: signed_take_bit_int_eq_self)

lemma and_127_mod: "(x::int) AND 127 = x mod 128"
proof -
  have "x AND 127 = take_bit 7 x"
    by (simp add: take_bit_eq_mask mask_eq_exp_minus_1)
  then show ?thesis by (simp add: take_bit_eq_mod)
qed

lemma js_and_127: "0 \<le> v \<Longrightarrow> v < 2 ^ 31 \<Longrightarrow> js_and v 0x7F = v mod 128"
  by (simp add: js_and_def toInt32_id and_127_mod)

lemma js_shr_7: "0 \<le> v \<Longrightarrow> v < 2 ^ 31 \<Longrightarrow> js_shr v 7 = v div 128"
  by (simp add: js_shr_def toInt32_id drop_bit_eq_div)

lemma bit_128_iff: "bit (128::int) n \<longleftrightarrow> n = 7"
proof -
  have "bit ((2::int) ^ 7) n \<longleftrightarrow> n = 7"
    by (simp only: bit_exp_iff) simp
  then show ?thesis by simp
qed

lemma low7_bit7: "0 \<le> x \<Longrightarrow> x < 128 \<Longrightarrow> \<not> bit (x::int) 7"
proof -
  assume "0 \<le> x" "x < 128"
  then have "take_bit 7 x = x" by (simp add: take_bit_int_eq_self)
  moreover have "\<not> bit (take_bit 7 x) 7" by (simp add: bit_take_bit_iff)
  ultimately show ?thesis by simp
qed

lemma or_128: "0 \<le> x \<Longrightarrow> x < 128 \<Longrightarrow> x OR 128 = x + (128::int)"
proof -
  assume a: "0 \<le> x" "x < 128"
  have "\<not> bit x n \<or> \<not> bit (128::int) n" for n
    using low7_bit7[OF a] by (cases "n = 7") (simp_all add: bit_128_iff)
  then show ?thesis by (simp add: disjunctive_add)
qed

lemma js_or_128: "0 \<le> x \<Longrightarrow> x < 128 \<Longrightarrow> js_or x 0x80 = x + 128"
  by (simp add: js_or_def toInt32_id or_128)

lemma and_128_zero: "0 \<le> x \<Longrightarrow> x < 128 \<Longrightarrow> (x::int) AND 128 = 0"
proof -
  assume a: "0 \<le> x" "x < 128"
  have "\<not> bit (x AND 128) n" for n
    using low7_bit7[OF a] by (cases "n = 7") (simp_all add: bit_and_iff bit_128_iff)
  then show ?thesis by (simp add: bit_eq_iff)
qed

lemma and_128_cont: "0 \<le> x \<Longrightarrow> x < 128 \<Longrightarrow> ((x::int) + 128) AND 128 \<noteq> 0"
proof -
  assume a: "0 \<le> x" "x < 128"
  have "x + 128 = x OR 128" using a by (simp add: or_128)
  moreover have "bit ((x OR 128) AND 128) 7"
    by (simp add: bit_and_iff bit_or_iff bit_128_iff)
  ultimately show ?thesis by auto
qed

lemma and_127_cont: "0 \<le> x \<Longrightarrow> x < 128 \<Longrightarrow> ((x::int) + 128) AND 127 = x"
  by (simp add: and_127_mod)

subsection \<open>Variable-length quantities\<close>

text \<open>
  The loop prepends the continuation bytes of \<open>v\<close>; a reader that has read nothing yet
  and meets them arrives at \<open>v\<close> as its accumulator.
\<close>

lemma vlq_loop_decode:
  "0 \<le> v \<Longrightarrow> v < 2 ^ 31 \<Longrightarrow>
   decodeVLQ_from 0 (vlq_loop v bytes @ rest) =
     (if v = 0 then decodeVLQ_from 0 (bytes @ rest) else decodeVLQ_from v (bytes @ rest))"
proof (induction v bytes rule: vlq_loop.induct)
  case (1 v bytes)
  show ?case
  proof (cases "v > 0")
    case False
    with "1.prems" show ?thesis by (subst vlq_loop.simps) simp
  next
    case True
    let ?q = "v div 128" and ?r = "v mod 128"
    have q: "0 \<le> ?q" "?q < 2 ^ 31" using True "1.prems" by auto
    have r: "0 \<le> ?r" "?r < 128" by auto
    have step: "vlq_loop v bytes = vlq_loop ?q ((?r + 128) # bytes)"
      using True "1.prems" by (subst vlq_loop.simps) (simp add: js_shr_7 js_and_127 js_or_128)
    have ih: "decodeVLQ_from 0 (vlq_loop ?q ((?r + 128) # bytes) @ rest) =
        (if ?q = 0 then decodeVLQ_from 0 (((?r + 128) # bytes) @ rest)
         else decodeVLQ_from ?q (((?r + 128) # bytes) @ rest))"
      using "1.IH"[OF True] q True "1.prems" by (simp add: js_shr_7 js_and_127 js_or_128)
    have dec: "decodeVLQ_from a (((?r + 128) # bytes) @ rest) =
        decodeVLQ_from (a * 128 + ?r) (bytes @ rest)" for a
      using and_128_cont[OF r] and_127_cont[OF r] by (simp add: Let_def)
    have "decodeVLQ_from 0 (vlq_loop v bytes @ rest) =
        decodeVLQ_from (?q * 128 + ?r) (bytes @ rest)"
      unfolding step ih using dec[of ?q] dec[of 0] by (cases "?q = 0") simp_all
    then show ?thesis using True by simp
  qed
qed

lemma decode_encodeVLQ:
  assumes "0 \<le> V" "V < 2 ^ 31"
  shows "decodeVLQ (encodeVLQ V @ rest) = Some (V, rest)"
proof -
  let ?q = "V div 128" and ?r = "V mod 128"
  have q: "0 \<le> ?q" "?q < 2 ^ 31" using assms by auto
  have r: "0 \<le> ?r" "?r < 128" by auto
  have enc: "encodeVLQ V = vlq_loop ?q [?r]"
    using assms by (simp add: encodeVLQ_def js_shr_7 js_and_127)
  have last: "decodeVLQ_from a ([?r] @ rest) = Some (a * 128 + ?r, rest)" for a
    using and_128_zero[OF r] and_127_mod[of ?r] by (simp add: Let_def)
  show ?thesis
    unfolding decodeVLQ_def enc vlq_loop_decode[OF q] using last[of 0] last[of ?q]
    by (cases "?q = 0") simp_all
qed

lemma encodeVLQ_examples:
  "encodeVLQ 0 = [0x00]" "encodeVLQ 127 = [0x7F]" "encodeVLQ 128 = [0x81, 0x00]"
  by code_simp+

text \<open>
  C2. For every non-negative integer \<open>V < 2^28\<close>, reading the bytes of \<open>encodeVLQ V\<close>
  back gives \<open>V\<close> (and leaves whatever follows them in the stream untouched);
  \<open>encodeVLQ 0\<close> is the single byte \<open>0x00\<close>, \<open>encodeVLQ 127\<close> is \<open>0x7F\<close>, and
  \<open>encodeVLQ 128\<close> is \<open>0x81 0x00\<close>.
\<close>

theorem encodeVLQ_roundtrip:
  assumes "0 \<le> V" and "V < 2 ^ 28"
  shows "decodeVLQ (encodeVLQ V @ rest) = Some (V, rest)
       \<and> encodeVLQ 0 = [0x00] \<and> encodeVLQ 127 = [0x7F] \<and> encodeVLQ 128 = [0x81, 0x00]"
proof -
  have "V < 2 ^ 31" using assms(2) by simp
  then show ?thesis
    using assms(1) by (simp add: decode_encodeVLQ encodeVLQ_examples)
qed

theorem encodeVLQ_roundtrip_witness:
  "(0::int) \<le> 480 \<and> (480::int) < 2 ^ 28 \<and> encodeVLQ 480 = [0x83, 0x60]
   \<and> decodeVLQ ([0x83, 0x60] @ [0x80, 0x3C, 0x00]) = Some (480, [0x80, 0x3C, 0x00])"
proof -
  have e: "encodeVLQ 480 = [0x83, 0x60]" by code_simp
  show ?thesis
    using encodeVLQ_roundtrip[of 480 "[0x80, 0x3C, 0x00]"] by (simp add: e)
qed

subsection \<open>Note events of the encoder\<close>

lemma addNote_skip: "\<not> pitch_in_range n \<Longrightarrow> addNote bpm ch n b = b"
  by (auto simp: addNote_def pitch_in_range_def Let_def)

lemma fold_addNote_filter:
  "fold (addNote bpm ch) (filter pitch_in_range ns) b = fold (addNote bpm ch) ns b"
  by (induction ns arbitrary: b) (simp_all add: addNote_skip)

lemma midiTrack_filter: "midiTrack bpm (drop_out_of_range t) = midiTrack bpm t"
proof -
  have "sortedNotes (filter pitch_in_range (track_notes t)) =
      filter pitch_in_range (sortedNotes (track_notes t))"
    by (simp add: sortedNotes_def filter_sort)
  then show ?thesis
    by (simp add: midiTrack_def drop_out_of_range_def Let_def fold_addNote_filter)
qed

lemma generate_filter:
  "generate (c\<lparr>tracks := map drop_out_of_range (tracks c)\<rparr>) = generate c"
proof -
  have "midiTracks (c\<lparr>tracks := map drop_out_of_range (tracks c)\<rparr>) = midiTracks c"
    by (simp add: midiTracks_def tempoTrack_def midiTrack_filter)
  then show ?thesis by (simp add: generate_def)
qed

lemma addNoteOn_events:
  "events (addNoteOn tick ch m v b) =
     events b @ encodeVLQ (max 0 (tick - lastTick b))
       @ [js_or 0x90 (js_and ch 0x0F), js_and m 0x7F, min 127 (max 1 (round (v * 127)))]"
  by (simp add: addNoteOn_def addEvent_def Let_def)

lemma addNote_cases:
  "addNote bpm ch n b =
     (if pitch_in_range n
      then addNoteOff (secondsToTicks bpm (time n) + DURATION_TICKS (duration n)) ch
             (noteStringToMidi (note_name n))
             (addNoteOn (secondsToTicks bpm (time n)) ch (noteStringToMidi (note_name n))
                (velocity n) b)
      else b)"
  by (simp add: addNote_def pitch_in_range_def Let_def)

text \<open>
  C9. A note-on event is the delta time followed by the status byte, the pitch and a
  velocity byte \<open>min 127 (max 1 (round (127 v)))\<close>, which lies in 1..127 whatever the
  semantic velocity \<open>v\<close> is (so also for \<open>v\<close> in [0,1]), never 0. A note whose MIDI pitch
  is outside 0..127 leaves the track builder untouched (no note-on, no note-off), and the
  encoded file is the one of the composition without such notes.
\<close>

theorem note_on_velocity_and_pitch_skip:
  fixes v :: real
  shows "events (addNoteOn tick ch m v b) =
           events b @ encodeVLQ (max 0 (tick - lastTick b))
             @ [js_or 0x90 (js_and ch 0x0F), js_and m 0x7F, min 127 (max 1 (round (v * 127)))]
       \<and> 1 \<le> min 127 (max 1 (round (v * 127)))
       \<and> min 127 (max 1 (round (v * 127))) \<le> (127::int)
       \<and> addNote bpm ch' n b' =
           (if pitch_in_range n
            then addNoteOff (secondsToTicks bpm (time n) + DURATION_TICKS (duration n)) ch'
                   (noteStringToMidi (note_name n))
                   (addNoteOn (secondsToTicks bpm (time n)) ch' (noteStringToMidi (note_name n))
                      (velocity n) b')
            else b')
       \<and> generate (c\<lparr>tracks := map drop_out_of_range (tracks c)\<rparr>) = generate c"
  using addNoteOn_events[of tick ch m v b] addNote_cases[of bpm ch' n b'] generate_filter[of c]
  by simp

theorem note_on_velocity_and_pitch_skip_witness:
  "last (events (addNoteOn 0 0 60 0.001 newBuilder)) = 1
   \<and> last (events (addNoteOn 0 0 60 1 newBuilder)) = 127
   \<and> noteStringToMidi ''C10'' = 132
   \<and> addNote 120 0 (sample_note ''C10'' 1) newBuilder = newBuilder
   \<and> generate (sample_composition [sample_note ''C4'' 0]) =
       generate (sample_composition [sample_note ''C4'' 0, sample_note ''C10'' 1])"
proof -
  have p: "noteStringToMidi ''C10'' = 132" "noteStringToMidi ''C4'' = 60"
    by code_simp+
  have r: "round (127 / 1000 :: real) = 0" "round (127 :: real) = 127"
    by code_simp+
  let ?c = "sample_composition [sample_note ''C4'' 0, sample_note ''C10'' 1]"
  have d: "?c\<lparr>tracks := map drop_out_of_range (tracks ?c)\<rparr> =
      sample_composition [sample_note ''C4'' 0]"
    by (simp add: sample_composition_def sample_track_def drop_out_of_range_def
        pitch_in_range_def sample_note_def p)
  note lo = note_on_velocity_and_pitch_skip[where tick = 0 and ch = 0 and m = 60
      and v = "0.001" and b = newBuilder and bpm = 120 and ch' = 0
      and n = "sample_note ''C10'' 1" and b' = newBuilder and c = ?c]
  note hi = note_on_velocity_and_pitch_skip[where tick = 0 and ch = 0 and m = 60
      and v = 1 and b = newBuilder and bpm = 120 and ch' = 0
      and n = "sample_note ''C10'' 1" and b' = newBuilder and c = ?c]
  have v1: "last (events (addNoteOn 0 0 60 0.001 newBuilder)) = 1"
    using lo by (simp add: r)
  have v2: "last (events (addNoteOn 0 0 60 1 newBuilder)) = 127"
    using hi by (simp add: r)
  have skip: "addNote 120 0 (sample_note ''C10'' 1) newBuilder = newBuilder"
    using hi by (simp add: pitch_in_range_def sample_note_def p)
  have "generate (?c\<lparr>tracks := map drop_out_of_range (tracks ?c)\<rparr>) = generate ?c"
    using hi by blast
  then have "generate (sample_composition [sample_note ''C4'' 0]) = generate ?c"
    by (simp only: d)
  with v1 v2 skip p(1) show ?thesis
    by blast
qed

subsection \<open>The order of a track's notes\<close>






subsection \<open>The analysis of a text\<close>

lemma fold_max_ge: "(a::int) \<le> fold max xs a"
proof (induction xs arbitrary: a)
  case Nil
  show ?case by simp
next
  case (Cons x xs)
  have "a \<le> max x a" by simp
  also have "\<dots> \<le> fold max xs (max x a)" by (rule Cons.IH)
  finally show ?case by simp
qed

text \<open>No entry of the keyword table is a comment: comments come from comment lines only.\<close>

lemma keyword_not_comment: "keyword_lookup w \<noteq> Some T_comment"
proof -
  have "LANGUAGE_KEYWORDS w \<noteq> Some T_comment"
  proof
    assume "LANGUAGE_KEYWORDS w = Some T_comment"
    then have "(w, T_comment) \<in> set keyword_entries"
      unfolding LANGUAGE_KEYWORDS_def by (rule map_of_SomeD)
    then show False
      by (simp add: keyword_entries_def)
  qed
  then show ?thesis
    by (auto simp: keyword_lookup_def split: option.splits)
qed

lemma classify_not_comment: "classify_word l w \<noteq> T_comment"
  using keyword_not_comment[of w]
  by (auto simp: classify_word_def split: option.splits)

lemma word_tokens_no_comment: "count_type T_comment (word_tokens l n d c wds) = 0"
  by (induction wds arbitrary: c) (simp_all add: count_type_def classify_not_comment)

lemma count_type_append: "count_type ty (xs @ ys) = count_type ty xs + count_type ty ys"
  by (simp add: count_type_def)

text \<open>Every line is blank, a comment or code: blank and comment lines never outnumber
  the lines.\<close>

lemma comment_and_empty_lines:
  "count_type T_comment (tokenize_lines i d lns)
     + length (filter (\<lambda>l. length (trim l) = 0) lns) \<le> length lns"
proof (induction lns arbitrary: i d)
  case Nil
  show ?case by (simp add: count_type_def)
next
  case (Cons l lns)
  let ?d = "d + (count_chars ''{(['' (trim l) - count_chars ''})]'' (trim l))"
  show ?case
    using Cons.IH[of "i + 1" d] Cons.IH[of "i + 1" "if ?d < 0 then 0 else ?d"]
    by (auto simp: Let_def count_type_append word_tokens_no_comment simp del: length_0_conv)
      (simp_all add: count_type_def)
qed

lemma split_on_nonempty: "split_on d s \<noteq> []"
  by (induction s) (auto split: list.splits)

lemma round_clamped:
  fixes y :: real
  assumes "0 \<le> y"
  shows "0 \<le> round (min 100 y) \<and> round (min 100 y) \<le> 100"
proof -
  have "(0::real) \<le> min 100 y" using assms by simp
  then have "round (0::real) \<le> round (min 100 y)" by (rule round_mono)
  then have lo: "0 \<le> round (min 100 y)" by simp
  have "min 100 y \<le> (100::real)" by simp
  then have "round (min 100 y) \<le> round (100::real)" by (rule round_mono)
  then have hi: "round (min 100 y) \<le> 100" by simp
  from lo hi show ?thesis by (rule conjI)
qed

lemma scores_nonneg:
  assumes "0 \<le> (a::int)" "0 \<le> (b::int)" "0 \<le> (c::int)" "0 \<le> (f::int)"
  shows "0 \<le> real_of_int (min (a * 10) 30) + real_of_int (min (b * 5) 30)
             + min (real_of_int c * 0.5) 20 + real_of_int (min (f * 3) 20)"
  using assms by simp

lemma metrics_analyze:
  "metrics (analyze code lang) =
     calculateMetrics (tokenize code (split_on newline code)) (split_on newline code)
       (extractStructures (tokenize code (split_on newline code)) (split_on newline code))"
  by (simp add: analyze_def Let_def)

lemma codeLines_nonneg: "0 \<le> codeLines (metrics (analyze code lang))"
  using comment_and_empty_lines[of 0 0 "split_on newline code"]
  by (simp add: metrics_analyze calculateMetrics_def Let_def tokenize_def)

lemma maxNestingDepth_nonneg: "0 \<le> maxNestingDepth (metrics (analyze code lang))"
  by (simp add: metrics_analyze calculateMetrics_def Let_def fold_max_ge)

lemma metric_complexity_formula:
  fixes code :: string and lang :: "CodeLanguage option"
  defines "m \<equiv> metrics (analyze code lang)"
  shows "metric_complexity m =
           round (min 100
                   (real_of_int (min (maxNestingDepth m * 10) 30)
                    + real_of_int (min ((int (conditionalCount m) + int (loopCount m)) * 5) 30)
                    + min (real_of_int (codeLines m) * 0.5) 20
                    + real_of_int (min (int (functionCount m) * 3) 20)))"
  unfolding m_def by (simp add: metrics_analyze calculateMetrics_def Let_def)

lemma metric_complexity_range:
  "0 \<le> metric_complexity (metrics (analyze code lang))
   \<and> metric_complexity (metrics (analyze code lang)) \<le> 100"
proof -
  let ?m = "metrics (analyze code lang)"
  have "0 \<le> int (conditionalCount ?m) + int (loopCount ?m)" "0 \<le> int (functionCount ?m)"
    by simp_all
  from scores_nonneg[OF maxNestingDepth_nonneg this(1) codeLines_nonneg this(2)]
  show ?thesis
    unfolding metric_complexity_formula by (rule round_clamped)
qed

text \<open>
  C7. For every text (and language hint) the complexity of the metrics lies in 0..100;
  it is the rounded sum, capped at 100, of the nesting score \<open>min (10 * depth) 30\<close>, the
  branching score \<open>min (5 * (conditionals + loops)) 30\<close>, the size score
  \<open>min (codeLines / 2) 20\<close> and the function score \<open>min (3 * functions) 20\<close>, where
  \<open>codeLines\<close> is the number of lines that are neither blank nor a comment.
\<close>

theorem complexity_bounds:
  fixes code :: string and lang :: "CodeLanguage option"
  defines "m \<equiv> metrics (analyze code lang)"
  shows "0 \<le> metric_complexity m \<and> metric_complexity m \<le> 100
       \<and> metric_complexity m =
           round (min 100
                   (real_of_int (min (maxNestingDepth m * 10) 30)
                    + real_of_int (min ((int (conditionalCount m) + int (loopCount m)) * 5) 30)
                    + min (real_of_int (codeLines m) * 0.5) 20
                    + real_of_int (min (int (functionCount m) * 3) 20)))
       \<and> codeLines m = int (totalLines m) - int (emptyLines m) - int (commentLines m)
       \<and> 0 \<le> codeLines m \<and> 0 \<le> maxNestingDepth m"
proof -
  have c: "codeLines m = int (totalLines m) - int (emptyLines m) - int (commentLines m)"
    unfolding m_def by (simp add: metrics_analyze calculateMetrics_def Let_def)
  have n: "0 \<le> codeLines m" "0 \<le> maxNestingDepth m"
    unfolding m_def by (rule codeLines_nonneg, rule maxNestingDepth_nonneg)
  from metric_complexity_range[of code lang] metric_complexity_formula[of code lang] c n
  show ?thesis
    unfolding m_def by blast
qed

theorem complexity_bounds_witness:
  "metric_complexity (metrics (analyze ''function add(a, b) { return a + b; }'' None)) = 7
   \<and> 0 \<le> metric_complexity (metrics (analyze ''function add(a, b) { return a + b; }'' None))
   \<and> metric_complexity (metrics (analyze ''function add(a, b) { return a + b; }'' None)) \<le> 100"
proof -
  have "metric_complexity (metrics (analyze ''function add(a, b) { return a + b; }'' None)) = 7"
    by code_simp
  with complexity_bounds[of "''function add(a, b) { return a + b; }''" None]
  show ?thesis by blast
qed

subsection \<open>The analysis of the empty text\<close>










subsection \<open>The call of \<open>analyze\<close> and the argument limit\<close>

text \<open>
  The value that \<open>Math_max_spread\<close> returns is the one \<open>calculateMetrics\<close> computes,
  so the call returns the value of \<open>analyze\<close> or raises.
\<close>

lemma Math_max_spread_value:
  "Math_max_spread argLimit 0 (map depth tks) = Inr d \<Longrightarrow>
     d = maxNestingDepth (calculateMetrics tks lns structs)"
  by (simp add: Math_max_spread_def calculateMetrics_def Let_def split: if_splits)












subsection \<open>The mapper keeps its configuration\<close>

lemma advance_fields [simp]:
  "config (advance dt mp) = config mp"
  "currentTime (advance dt mp) = currentTime mp + dt"
  "tempoMultiplier (advance dt mp) = tempoMultiplier mp"
  by (simp_all add: advance_def)

lemma emit_each_config: "config (snd (emit_each mk dt xs mp)) = config mp"
  by (induction xs arbitrary: mp) (simp_all add: split_beta)

lemma mapToken_config: "config (snd (mapToken token mp)) = config mp"
  by (cases "tok_type token")
    (simp_all add: mapToken_def mapFunction_def mapLoop_def mapConditional_def mapVariable_def
      mapClass_def mapString_def mapNumber_def mapOperator_def mapComment_def mapImport_def
      mapReturn_def mapError_def mapBracketOpen_def mapBracketClose_def mapWhitespace_def
      mapDefault_def Let_def emit_each_config)

lemma map_tokens_config: "config (snd (map_tokens tks mp)) = config mp"
proof (induction tks arbitrary: mp)
  case Nil
  show ?case by simp
next
  case (Cons t tks)
  show ?case
    using Cons.IH[of "snd (mapToken t mp)"] mapToken_config[of t mp]
    by (simp add: split_beta)
qed

lemma mapToNotes_config: "config (snd (mapToNotes an mp)) = config mp"
  by (simp add: mapToNotes_def Let_def map_tokens_config)

lemma calculateTempo_config:
  "config mp' = config mp \<Longrightarrow> calculateTempo mp' c = calculateTempo mp c"
  by (simp add: calculateTempo_def)

lemma calculateTempo_new:
  "calculateTempo (new_MusicMapper st) c = round (70 + (c / 100) * (160 - 70))"
  by (simp add: calculateTempo_def new_MusicMapper_def DEFAULT_CONFIG_def)

subsection \<open>What \<open>sonify\<close> returns\<close>

lemma sonify_analysis: "analysis (sonify now r) = analyze (req_code r) (req_language r)"
  by (simp add: sonify_def Let_def split: prod.splits)

lemma sonify_composition:
  "composition (sonify now r) =
     buildComposition now (req_code r) (analyze (req_code r) (req_language r))
       (organizeTracks
          (fst (mapToNotes (analyze (req_code r) (req_language r)) (new_MusicMapper (style_of r))))
          (style_of r))
       (calculateTempo (new_MusicMapper (style_of r))
          (real_of_int (metric_complexity (metrics (analyze (req_code r) (req_language r))))))
       (getTotalDuration
          (snd (mapToNotes (analyze (req_code r) (req_language r)) (new_MusicMapper (style_of r)))))
       (style_of r)"
proof -
  let ?an = "analyze (req_code r) (req_language r)" and ?mp = "new_MusicMapper (style_of r)"
  obtain ns mp' where m: "mapToNotes ?an ?mp = (ns, mp')"
    by (cases "mapToNotes ?an ?mp")
  have "config mp' = config ?mp"
    using mapToNotes_config[of ?an ?mp] m by simp
  then have "calculateTempo mp' c = calculateTempo ?mp c" for c
    by (rule calculateTempo_config)
  then show ?thesis
    using m by (simp add: sonify_def Let_def style_of_def)
qed

lemma sonify_generatedAt: "generatedAt (metadata (composition (sonify now r))) = now"
  by (simp add: sonify_composition buildComposition_def Let_def)

lemma sonify_tracks:
  "tracks (composition (sonify now r)) =
     organizeTracks
       (fst (mapToNotes (analyze (req_code r) (req_language r)) (new_MusicMapper (style_of r))))
       (style_of r)"
  by (simp add: sonify_composition buildComposition_def Let_def)

lemma sonify_duration:
  "total_duration (composition (sonify now r)) =
     getTotalDuration
       (snd (mapToNotes (analyze (req_code r) (req_language r)) (new_MusicMapper (style_of r))))"
  by (simp add: sonify_composition buildComposition_def Let_def)

lemma sonify_tempo:
  "tempo (composition (sonify now r)) =
     real_of_int
       (round (70 + (real_of_int (metric_complexity (metrics (analysis (sonify now r)))) / 100)
                    * (160 - 70)))"
  by (simp add: sonify_composition sonify_analysis buildComposition_def Let_def
      calculateTempo_new)

subsection \<open>Determinism\<close>

lemma generate_ignores_clock:
  "generate (c\<lparr>metadata := (metadata c)\<lparr>generatedAt := x\<rparr>\<rparr>) = generate c"
  by (simp add: generate_def midiTracks_def tempoTrack_def)

lemma buildComposition_clock:
  "buildComposition now1 code an trks tp dur st =
     (buildComposition now2 code an trks tp dur st)
       \<lparr>metadata :=
          (metadata (buildComposition now2 code an trks tp dur st))\<lparr>generatedAt := now1\<rparr>\<rparr>"
  by (simp add: buildComposition_def Let_def)

text \<open>
  C1, as the code has it. Two calls read the clock twice, and the reading is stored in
  the composition: with two different readings the compositions differ.
\<close>

theorem sonify_twice_counterexample:
  "composition (sonify ''2026-01-01T00:00:00.000Z'' (request ''x = 1''))
     \<noteq> composition (sonify ''2026-01-01T00:00:00.001Z'' (request ''x = 1''))"
proof
  assume "composition (sonify ''2026-01-01T00:00:00.000Z'' (request ''x = 1''))
     = composition (sonify ''2026-01-01T00:00:00.001Z'' (request ''x = 1''))"
  then have
    "generatedAt (metadata (composition (sonify ''2026-01-01T00:00:00.000Z'' (request ''x = 1''))))
     = generatedAt (metadata (composition (sonify ''2026-01-01T00:00:00.001Z'' (request ''x = 1''))))"
    by simp
  then show False
    by (simp add: sonify_generatedAt)
qed

text \<open>
  C1, amended. For every request (text, language hint, style), two calls of \<open>sonify\<close>
  give compositions that agree in every field but the time stamp
  \<open>metadata.generatedAt\<close>, the same analysis, and the same encoded MIDI bytes.
\<close>

theorem sonify_deterministic_up_to_clock:
  "composition (sonify now1 r) =
     (composition (sonify now2 r))
       \<lparr>metadata := (metadata (composition (sonify now2 r)))\<lparr>generatedAt := now1\<rparr>\<rparr>
   \<and> analysis (sonify now1 r) = analysis (sonify now2 r)
   \<and> generate (composition (sonify now1 r)) = generate (composition (sonify now2 r))"
proof -
  have c: "composition (sonify now1 r) =
     (composition (sonify now2 r))
       \<lparr>metadata := (metadata (composition (sonify now2 r)))\<lparr>generatedAt := now1\<rparr>\<rparr>"
    unfolding sonify_composition by (rule buildComposition_clock)
  have "generate (composition (sonify now1 r)) = generate (composition (sonify now2 r))"
    by (subst c) (rule generate_ignores_clock)
  with c show ?thesis
    by (simp add: sonify_analysis)
qed

theorem sonify_deterministic_up_to_clock_witness:
  "generate (composition (sonify ''2026-01-01T00:00:00.000Z'' (request ''x = 1'')))
     = generate (composition (sonify ''2026-01-01T00:00:00.001Z'' (request ''x = 1'')))
   \<and> analysis (sonify ''2026-01-01T00:00:00.000Z'' (request ''x = 1''))
     = analysis (sonify ''2026-01-01T00:00:00.001Z'' (request ''x = 1''))"
  using sonify_deterministic_up_to_clock[of "''2026-01-01T00:00:00.000Z''" "request ''x = 1''"
      "''2026-01-01T00:00:00.001Z''"]
  by blast

subsection \<open>Tempo\<close>

lemma tempo_bounds:
  fixes c :: real
  assumes "0 \<le> c" and "c \<le> 100"
  shows "70 \<le> round (70 + (c / 100) * (160 - 70))
       \<and> round (70 + (c / 100) * (160 - 70)) \<le> 160"
proof -
  have "(70::real) \<le> 70 + (c / 100) * (160 - 70)" using assms by simp
  then have "round (70::real) \<le> round (70 + (c / 100) * (160 - 70))" by (rule round_mono)
  moreover have "70 + (c / 100) * (160 - 70) \<le> (160::real)" using assms by simp
  then have "round (70 + (c / 100) * (160 - 70)) \<le> round (160::real)" by (rule round_mono)
  ultimately show ?thesis by simp
qed

text \<open>
  C5, as the code has it. The tempo range of the style preset is not what
  \<open>calculateTempo\<close> reads: for the classical preset (80..130) and complexity 0 the
  claim's formula gives 80, the code gives 70.
\<close>

theorem calculateTempo_counterexample:
  "calculateTempo (new_MusicMapper classical) 0
     \<noteq> round (fst (tempoRange (STYLE_PRESETS classical))
               + (0 / 100) * (snd (tempoRange (STYLE_PRESETS classical))
                               - fst (tempoRange (STYLE_PRESETS classical))))"
  by (simp add: calculateTempo_new)

text \<open>
  C5, amended. For every style preset and every complexity \<open>c\<close> in [0,100],
  \<open>calculateTempo c\<close> is \<open>round (minBPM + (c/100) * (maxBPM - minBPM))\<close> where
  \<open>[minBPM, maxBPM] = [70, 160]\<close> is the range of the mapping configuration
  (\<open>complexityToTempo\<close>), the same for every style; the result lies in 70..160, and it
  is the tempo of the composition that \<open>sonify\<close> returns.
\<close>

theorem calculateTempo_default_range:
  fixes c :: real
  assumes "0 \<le> c" and "c \<le> 100"
  shows "calculateTempo (new_MusicMapper st) c = round (70 + (c / 100) * (160 - 70))
       \<and> 70 \<le> calculateTempo (new_MusicMapper st) c
       \<and> calculateTempo (new_MusicMapper st) c \<le> 160
       \<and> complexityToTempo_minBPM (config (new_MusicMapper st)) = 70
       \<and> complexityToTempo_maxBPM (config (new_MusicMapper st)) = 160
       \<and> tempo (composition (sonify now r)) =
           real_of_int
             (round (70 + (real_of_int (metric_complexity (metrics (analysis (sonify now r))))
                           / 100) * (160 - 70)))"
proof -
  have "complexityToTempo_minBPM (config (new_MusicMapper st)) = 70"
    "complexityToTempo_maxBPM (config (new_MusicMapper st)) = 160"
    by (simp_all add: new_MusicMapper_def DEFAULT_CONFIG_def)
  with tempo_bounds[OF assms] sonify_tempo[of now r] show ?thesis
    unfolding calculateTempo_new by blast
qed

theorem calculateTempo_default_range_witness:
  "(0::real) \<le> 50 \<and> (50::real) \<le> 100
   \<and> calculateTempo (new_MusicMapper classical) 50 = 115
   \<and> calculateTempo (new_MusicMapper electronic) 50 = 115
   \<and> tempo (composition (sonify ''2026-01-01T00:00:00.000Z'' (request ''const x = 42;''))) = 71"
proof -
  have a: "(0::real) \<le> 50" "(50::real) \<le> 100" by simp_all
  have r: "round (115::real) = 115" by simp
  have m: "metric_complexity (metrics (analysis (sonify ''2026-01-01T00:00:00.000Z''
      (request ''const x = 42;'')))) = 1"
    unfolding sonify_analysis by code_simp
  have r1: "round (70 + (real_of_int 1 / 100) * (160 - 70) :: real) = 71" by code_simp
  show ?thesis
    using calculateTempo_default_range[OF a, of classical "''2026-01-01T00:00:00.000Z''"
        "request ''const x = 42;''"]
      calculateTempo_default_range[OF a, of electronic "''2026-01-01T00:00:00.000Z''"
        "request ''const x = 42;''"]
    unfolding m r1 by simp
qed

subsection \<open>Grouping notes into tracks\<close>


lemma trackMap_push_mset:
  "mset (concat (map snd (trackMap_push n m))) = mset (concat (map snd m)) + {#n#}"
  by (induction m) auto


lemma foldl_push_mset:
  "mset (concat (map snd (foldl (\<lambda>trackMap n. trackMap_push n trackMap) acc ns))) =
     mset (concat (map snd acc)) + mset ns"
  by (induction ns arbitrary: acc) (simp_all add: trackMap_push_mset)


lemma group_mset: "mset (concat (map snd (group_by_instrument ns))) = mset ns"
  by (simp add: group_by_instrument_def foldl_push_mset)

lemma organizeTracks_notes:
  "map track_notes (organizeTracks ns st) = map snd (group_by_instrument ns)"
  by (simp add: organizeTracks_def split_beta Let_def)

lemma organizeDiffTracks_notes:
  "map track_notes (organizeDiffTracks ns) = map snd (group_by_instrument ns)"
  by (simp add: organizeDiffTracks_def split_beta Let_def)



subsection \<open>Every line of a diff gives a note\<close>

lemma phrase_notes_nonempty: "xs \<noteq> [] \<Longrightarrow> fst (phrase_notes mk dt xs t) \<noteq> []"
  by (cases xs) (simp_all add: split_beta)

lemma map_diff_line_nonempty: "fst (map_diff_line ky m l t) \<noteq> []"
  by (cases "dl_type l")
    (simp_all add: map_diff_line_def Let_def split_beta phrase_notes_nonempty)

lemma map_diff_lines_nonempty: "ls \<noteq> [] \<Longrightarrow> map_diff_lines ky m ls t \<noteq> []"
  by (cases ls) (simp_all add: split_beta map_diff_line_nonempty)

lemma parse_lines_nonempty: "ls \<noteq> [] \<Longrightarrow> parse_lines n ls \<noteq> []"
  by (cases ls) simp_all

lemma mapDiffToNotes_nonempty: "mapDiffToNotes (parseDiff d) ky scl tp \<noteq> []"
  by (simp add: mapDiffToNotes_def parseDiff_def map_diff_lines_nonempty parse_lines_nonempty
      split_on_nonempty)

lemma diff_notes_nonempty: "diff_notes d \<noteq> []"
  by (simp add: diff_notes_def Let_def mapDiffToNotes_nonempty)

lemma sonifyDiff_tracks:
  "tracks (diff_composition (sonifyDiff now d st)) = organizeDiffTracks (diff_notes d)"
  by (simp add: sonifyDiff_def diff_notes_def Let_def)

lemma sonifyDiff_duration:
  "total_duration (diff_composition (sonifyDiff now d st)) =
     Math_max (map time (diff_notes d)) + 1"
  by (simp add: sonifyDiff_def diff_notes_def Let_def mapDiffToNotes_nonempty)

lemma Math_max_Max: "xs \<noteq> [] \<Longrightarrow> Math_max xs = Max (set xs)"
proof (cases xs)
  case Nil
  then show "xs \<noteq> [] \<Longrightarrow> ?thesis" by simp
next
  case (Cons a list)
  have "Max (set (a # list)) = fold max list a" by (rule Max.set_eq_fold)
  then show ?thesis using Cons by (simp add: Math_max_def)
qed

lemma all_notes_diff:
  "mset (all_notes (diff_composition (sonifyDiff now d st))) = mset (diff_notes d)"
  by (simp add: all_notes_def sonifyDiff_tracks organizeDiffTracks_notes group_mset)

lemma all_notes_sonify:
  "mset (all_notes (composition (sonify now r))) =
     mset (fst (mapToNotes (analyze (req_code r) (req_language r)) (new_MusicMapper (style_of r))))"
  by (simp add: all_notes_def sonify_tracks organizeTracks_notes group_mset)

lemma diff_duration_Max:
  "total_duration (diff_composition (sonifyDiff now d st)) =
     Max (time ` set (all_notes (diff_composition (sonifyDiff now d st)))) + 1"
proof -
  have "set (all_notes (diff_composition (sonifyDiff now d st))) = set (diff_notes d)"
    using all_notes_diff[of now d st] by (rule mset_eq_setD)
  moreover have "map time (diff_notes d) \<noteq> []"
    using diff_notes_nonempty[of d] by simp
  then have "Math_max (map time (diff_notes d)) = Max (set (map time (diff_notes d)))"
    by (rule Math_max_Max)
  ultimately show ?thesis
    by (simp add: sonifyDiff_duration)
qed

lemma all_notes_diff_nonempty: "all_notes (diff_composition (sonifyDiff now d st)) \<noteq> []"
proof
  assume "all_notes (diff_composition (sonifyDiff now d st)) = []"
  then have "mset (diff_notes d) = {#}"
    using all_notes_diff[of now d st] by simp
  then show False
    using diff_notes_nonempty[of d] by simp
qed

subsection \<open>The time cursor of the mapper only moves forward\<close>

lemma notes_within_append:
  "notes_within a xs b \<Longrightarrow> notes_within b ys c \<Longrightarrow> notes_within a (xs @ ys) c"
  by (auto simp: notes_within_def list_all_iff)

lemma notes_within_Cons:
  "time n = a \<Longrightarrow> a \<le> b \<Longrightarrow> notes_within b ns c \<Longrightarrow> notes_within a (n # ns) c"
  by (auto simp: notes_within_def list_all_iff)

lemma emit_each_within:
  assumes "\<And>x. 0 \<le> dt x" and "\<And>x t. time (mk x t) = t"
  shows "notes_within (currentTime mp) (fst (emit_each mk dt xs mp))
           (currentTime (snd (emit_each mk dt xs mp)))
       \<and> tempoMultiplier (snd (emit_each mk dt xs mp)) = tempoMultiplier mp"
proof (induction xs arbitrary: mp)
  case Nil
  show ?case by (simp add: notes_within_def)
next
  case (Cons x xs)
  let ?mp1 = "advance (dt x) mp"
  have "notes_within (currentTime mp) (mk x (currentTime mp) # fst (emit_each mk dt xs ?mp1))
      (currentTime (snd (emit_each mk dt xs ?mp1)))"
  proof (rule notes_within_Cons)
    show "time (mk x (currentTime mp)) = currentTime mp"
      by (rule assms(2))
    show "currentTime mp \<le> currentTime ?mp1"
      using assms(1)[of x] by simp
    show "notes_within (currentTime ?mp1) (fst (emit_each mk dt xs ?mp1))
      (currentTime (snd (emit_each mk dt xs ?mp1)))"
      using Cons.IH[of ?mp1] by simp
  qed
  then show ?case
    using Cons.IH[of ?mp1] by (simp add: split_beta)
qed

lemma DURATION_VALUES_nonneg: "0 \<le> DURATION_VALUES d"
  by (cases d) simp_all

lemma mapFunction_within:
  assumes "0 \<le> tempoMultiplier mp"
  shows "notes_within (currentTime mp) (fst (mapFunction token mp))
           (currentTime (snd (mapFunction token mp)))
       \<and> tempoMultiplier (snd (mapFunction token mp)) = tempoMultiplier mp"
  unfolding mapFunction_def Let_def
  by (rule emit_each_within) (use assms in simp_all)

lemma mapLoop_within:
  assumes "0 \<le> tempoMultiplier mp"
  shows "notes_within (currentTime mp) (fst (mapLoop token mp))
           (currentTime (snd (mapLoop token mp)))
       \<and> tempoMultiplier (snd (mapLoop token mp)) = tempoMultiplier mp"
  unfolding mapLoop_def Let_def
  by (rule emit_each_within)
    (use assms DURATION_VALUES_nonneg in \<open>simp_all add: split_beta\<close>)

lemma mapImport_within:
  assumes "0 \<le> tempoMultiplier mp"
  shows "notes_within (currentTime mp) (fst (mapImport token mp))
           (currentTime (snd (mapImport token mp)))
       \<and> tempoMultiplier (snd (mapImport token mp)) = tempoMultiplier mp"
  unfolding mapImport_def Let_def
  by (rule emit_each_within) (use assms in simp_all)

lemma mapToken_within:
  assumes "0 \<le> tempoMultiplier mp"
  shows "notes_within (currentTime mp) (fst (mapToken token mp))
           (currentTime (snd (mapToken token mp)))
       \<and> tempoMultiplier (snd (mapToken token mp)) = tempoMultiplier mp"
proof (cases "tok_type token")
  case T_function
  then show ?thesis using mapFunction_within[OF assms, of token] by (simp add: mapToken_def)
next
  case T_loop
  then show ?thesis using mapLoop_within[OF assms, of token] by (simp add: mapToken_def)
next
  case T_import
  then show ?thesis using mapImport_within[OF assms, of token] by (simp add: mapToken_def)
qed (use assms in \<open>simp_all add: mapToken_def mapConditional_def mapVariable_def
    mapClass_def mapString_def mapNumber_def mapOperator_def mapComment_def
    mapReturn_def mapError_def mapBracketOpen_def mapBracketClose_def mapWhitespace_def
    mapDefault_def Let_def notes_within_def list_all_iff\<close>)

lemma map_tokens_within:
  assumes "0 \<le> tempoMultiplier mp"
  shows "notes_within (currentTime mp) (fst (map_tokens tks mp))
           (currentTime (snd (map_tokens tks mp)))"
  using assms
proof (induction tks arbitrary: mp)
  case Nil
  show ?case by (simp add: notes_within_def)
next
  case (Cons t tks)
  let ?mp1 = "snd (mapToken t mp)"
  have 1: "notes_within (currentTime mp) (fst (mapToken t mp)) (currentTime ?mp1)"
    and m: "tempoMultiplier ?mp1 = tempoMultiplier mp"
    using mapToken_within[OF Cons.prems, of t] by simp_all
  have "notes_within (currentTime ?mp1) (fst (map_tokens tks ?mp1))
      (currentTime (snd (map_tokens tks ?mp1)))"
    using Cons.IH[of ?mp1] m Cons.prems by simp
  with 1 show ?case
    by (simp add: split_beta notes_within_append)
qed

lemma mapToNotes_within:
  "notes_within 0 (fst (mapToNotes (analyze code lang) (new_MusicMapper st)))
     (currentTime (snd (mapToNotes (analyze code lang) (new_MusicMapper st))))"
proof -
  let ?c = "real_of_int (metric_complexity (metrics (analyze code lang)))"
  have "0 \<le> ?c" "?c \<le> 100"
    using metric_complexity_range[of code lang] by simp_all
  then have "70 \<le> calculateTempo (new_MusicMapper st) ?c"
    unfolding calculateTempo_new using tempo_bounds by blast
  then have "0 \<le> 120 / real_of_int (calculateTempo (new_MusicMapper st) ?c)"
    by simp
  then show ?thesis
    using map_tokens_within[of "(new_MusicMapper st)\<lparr>currentTime := 0,
        tempoMultiplier := 120 / real_of_int (calculateTempo (new_MusicMapper st) ?c)\<rparr>"
        "tokens (analyze code lang)"]
    by (simp add: mapToNotes_def Let_def)
qed

lemma sonify_notes_within:
  "list_all (\<lambda>n. 0 \<le> time n \<and> time n \<le> total_duration (composition (sonify now r)))
     (all_notes (composition (sonify now r)))"
proof -
  let ?m = "mapToNotes (analyze (req_code r) (req_language r)) (new_MusicMapper (style_of r))"
  have "set (all_notes (composition (sonify now r))) = set (fst ?m)"
    using all_notes_sonify[of now r] by (rule mset_eq_setD)
  moreover have "notes_within 0 (fst ?m) (currentTime (snd ?m))"
    by (rule mapToNotes_within)
  ultimately show ?thesis
    by (simp add: sonify_duration getTotalDuration_def notes_within_def list_all_iff)
qed

subsection \<open>The duration of a composition\<close>

text \<open>
  C3, as the code has it. On the code path the duration is not computed from the notes:
  the empty text gives no note and the duration 9/70 (not the fallback 5); the text
  \<open>const x = 42;\<close> gives notes, the last one starting at 87/71, and the duration
  183/142 (not 87/71 + 1).
\<close>

theorem total_duration_counterexample:
  "\<not> (all_notes (composition (sonify ''2026-01-01T00:00:00.000Z'' (request []))) = []
       \<and> total_duration (composition (sonify ''2026-01-01T00:00:00.000Z'' (request []))) = 5)
   \<and> \<not> (all_notes (composition (sonify ''2026-01-01T00:00:00.000Z''
              (request ''const x = 42;''))) \<noteq> []
       \<and> total_duration (composition (sonify ''2026-01-01T00:00:00.000Z''
              (request ''const x = 42;'')))
           = Max (time ` set (all_notes (composition (sonify ''2026-01-01T00:00:00.000Z''
                   (request ''const x = 42;''))))) + 1)"
proof -
  have "total_duration (composition (sonify ''2026-01-01T00:00:00.000Z'' (request []))) = 9 / 70"
    by code_simp
  moreover have "total_duration (composition (sonify ''2026-01-01T00:00:00.000Z''
      (request ''const x = 42;''))) = 183 / 142"
    by code_simp
  moreover have "Max (time ` set (all_notes (composition (sonify ''2026-01-01T00:00:00.000Z''
      (request ''const x = 42;''))))) = 87 / 71"
    by code_simp
  ultimately show ?thesis
    by simp
qed

lemma sonify_duration_nonneg: "0 \<le> total_duration (composition (sonify now r))"
  using mapToNotes_within[of "req_code r" "req_language r" "style_of r"]
  by (simp add: sonify_duration getTotalDuration_def notes_within_def)

lemma sonify_empty_text:
  "all_notes (composition (sonify now (request []))) = []
   \<and> total_duration (composition (sonify now (request []))) = 9 / 70"
proof -
  have "fst (mapToNotes (analyze (req_code (request [])) (req_language (request [])))
      (new_MusicMapper (style_of (request [])))) = []"
    by code_simp
  then have "mset (all_notes (composition (sonify now (request [])))) = {#}"
    using all_notes_sonify[of now "request []"] by simp
  moreover have "getTotalDuration (snd (mapToNotes (analyze (req_code (request []))
      (req_language (request []))) (new_MusicMapper (style_of (request []))))) = 9 / 70"
    by code_simp
  ultimately show ?thesis
    by (simp add: sonify_duration)
qed

lemma sonify_const_text:
  "total_duration (composition (sonify now (request ''const x = 42;''))) = 183 / 142
   \<and> Max (time ` set (all_notes (composition (sonify now (request ''const x = 42;'')))))
       = 87 / 71"
proof -
  let ?r = "request ''const x = 42;''"
  let ?m = "mapToNotes (analyze (req_code ?r) (req_language ?r)) (new_MusicMapper (style_of ?r))"
  have "set (all_notes (composition (sonify now ?r))) = set (fst ?m)"
    using all_notes_sonify[of now ?r] by (rule mset_eq_setD)
  moreover have "Max (time ` set (fst ?m)) = 87 / 71"
    by code_simp
  moreover have "getTotalDuration (snd ?m) = 183 / 142"
    by code_simp
  ultimately show ?thesis
    by (simp add: sonify_duration)
qed

text \<open>
  C3, amended. On the diff path (\<open>sonifyDiff\<close>) the duration of the composition is the
  largest start time of its notes plus 1 second; a diff always has at least one note, so
  the fallback of 5 seconds that the code provides is never taken. On the code path
  (\<open>sonify\<close>) the duration is the final value of the mapper's time cursor
  (\<open>getTotalDuration\<close>); it is not negative and every note starts between 0 and that
  duration. It need not be the largest start time plus 1, nor 5 without notes: the
  empty text has no note and the duration 9/70, and the text \<open>const x = 42;\<close> has its
  last note at 87/71 and the duration 183/142.
\<close>

theorem total_duration_by_path:
  "total_duration (diff_composition (sonifyDiff now d st)) =
     Max (time ` set (all_notes (diff_composition (sonifyDiff now d st)))) + 1
   \<and> all_notes (diff_composition (sonifyDiff now d st)) \<noteq> []
   \<and> total_duration (composition (sonify now' r)) =
       getTotalDuration
         (snd (mapToNotes (analyze (req_code r) (req_language r)) (new_MusicMapper (style_of r))))
   \<and> 0 \<le> total_duration (composition (sonify now' r))
   \<and> list_all (\<lambda>n. 0 \<le> time n \<and> time n \<le> total_duration (composition (sonify now' r)))
       (all_notes (composition (sonify now' r)))
   \<and> all_notes (composition (sonify now' (request []))) = []
   \<and> total_duration (composition (sonify now' (request []))) = 9 / 70
   \<and> total_duration (composition (sonify now' (request ''const x = 42;''))) = 183 / 142
   \<and> Max (time ` set (all_notes (composition (sonify now' (request ''const x = 42;'')))))
       = 87 / 71"
  using diff_duration_Max[of now d st] all_notes_diff_nonempty[of now d st]
    sonify_duration[of now' r] sonify_duration_nonneg[of now' r] sonify_notes_within[of now' r]
    sonify_empty_text[of now'] sonify_const_text[of now']
  by blast

theorem total_duration_by_path_witness:
  "total_duration (diff_composition (sonifyDiff ''2026-01-01T00:00:00.000Z'' scenario_diff
      classical)) = 29 / 14
   \<and> Max (time ` set (all_notes (diff_composition (sonifyDiff ''2026-01-01T00:00:00.000Z''
      scenario_diff classical)))) = 15 / 14
   \<and> total_duration (composition (sonify ''2026-01-01T00:00:00.000Z''
      (request ''const x = 42;''))) = 183 / 142"
proof -
  have m: "Max (time ` set (all_notes (diff_composition (sonifyDiff ''2026-01-01T00:00:00.000Z''
      scenario_diff classical)))) = 15 / 14"
    by code_simp
  note T = total_duration_by_path[of "''2026-01-01T00:00:00.000Z''" scenario_diff classical
        "''2026-01-01T00:00:00.000Z''" "request ''const x = 42;''"]
  from T have "total_duration (diff_composition (sonifyDiff ''2026-01-01T00:00:00.000Z''
      scenario_diff classical)) = 15 / 14 + 1"
    unfolding m by (rule conjunct1)
  moreover from T have "total_duration (composition (sonify ''2026-01-01T00:00:00.000Z''
      (request ''const x = 42;''))) = 183 / 142"
    by blast
  ultimately show ?thesis
    using m by simp
qed

subsection \<open>The tracks of a composition and of its file\<close>



















subsection \<open>The statistics of a diff\<close>

lemma analyzeDiff_ratio:
  "changeRatio (analyzeDiff ls) =
     (if addedLines (analyzeDiff ls) + removedLines (analyzeDiff ls) > 0
      then real (addedLines (analyzeDiff ls))
           / real (addedLines (analyzeDiff ls) + removedLines (analyzeDiff ls))
      else 0.5)"
  by (simp add: analyzeDiff_def Let_def)

lemma scenario_analysis:
  "analyzeDiff (parseDiff scenario_diff) =
     \<lparr>addedLines = 1, removedLines = 1, contextLines = 1, totalChanges = 2,
      changeRatio = 0.5, files = [''b'']\<rparr>"
  by code_simp

lemma sonifyDiff_analysis: "diffAnalysis (sonifyDiff now d st) = analyzeDiff (parseDiff d)"
  by (simp add: sonifyDiff_def Let_def)

lemma sonifyDiff_key:
  "key (diff_composition (sonifyDiff now d st)) =
     (if changeRatio (analyzeDiff (parseDiff d)) > 0.6 then ''C''
      else if changeRatio (analyzeDiff (parseDiff d)) < 0.4 then ''A'' else ''D'')"
  by (simp add: sonifyDiff_def Let_def)

lemma sonifyDiff_scale:
  "scale (diff_composition (sonifyDiff now d st)) =
     (if changeRatio (analyzeDiff (parseDiff d)) > 0.6 then major
      else if changeRatio (analyzeDiff (parseDiff d)) < 0.4 then minor else dorian)"
  by (simp add: sonifyDiff_def Let_def)

text \<open>
  C8. For every list of parsed diff lines, \<open>changeRatio\<close> is
  \<open>addedLines / (addedLines + removedLines)\<close>, and 0.5 when there is no added and no
  removed line. For the diff text of the scenario the analysis has \<open>addedLines = 1\<close>,
  \<open>removedLines = 1\<close>, \<open>changeRatio = 0.5\<close>, and \<open>sonifyDiff\<close> takes the middle mode (key D,
  dorian), neither C major nor A minor.
\<close>

theorem changeRatio_and_scenario:
  "changeRatio (analyzeDiff ls) =
     (if addedLines (analyzeDiff ls) + removedLines (analyzeDiff ls) > 0
      then real (addedLines (analyzeDiff ls))
           / real (addedLines (analyzeDiff ls) + removedLines (analyzeDiff ls))
      else 0.5)
   \<and> addedLines (diffAnalysis (sonifyDiff now scenario_diff st)) = 1
   \<and> removedLines (diffAnalysis (sonifyDiff now scenario_diff st)) = 1
   \<and> changeRatio (diffAnalysis (sonifyDiff now scenario_diff st)) = 0.5
   \<and> key (diff_composition (sonifyDiff now scenario_diff st)) = ''D''
   \<and> scale (diff_composition (sonifyDiff now scenario_diff st)) = dorian"
  using analyzeDiff_ratio[of ls]
  by (simp add: sonifyDiff_analysis sonifyDiff_key sonifyDiff_scale scenario_analysis)

theorem changeRatio_and_scenario_witness:
  "changeRatio (analyzeDiff (parseDiff ''+a'')) = 1
   \<and> changeRatio (analyzeDiff (parseDiff ''unchanged'')) = 0.5
   \<and> key (diff_composition (sonifyDiff ''2026-01-01T00:00:00.000Z'' scenario_diff jazz)) = ''D''"
proof -
  have a: "analyzeDiff (parseDiff ''+a'') =
      \<lparr>addedLines = 1, removedLines = 0, contextLines = 0, totalChanges = 1,
       changeRatio = 1, files = []\<rparr>"
    by code_simp
  have u: "analyzeDiff (parseDiff ''unchanged'') =
      \<lparr>addedLines = 0, removedLines = 0, contextLines = 1, totalChanges = 0,
       changeRatio = 0.5, files = []\<rparr>"
    by code_simp
  show ?thesis
    using changeRatio_and_scenario[of "parseDiff ''+a''" "''2026-01-01T00:00:00.000Z''" jazz]
      changeRatio_and_scenario[of "parseDiff ''unchanged''" "''2026-01-01T00:00:00.000Z''" jazz]
    by (simp add: a u)
qed

end
